theory Spec2Isabelle
  imports Main "HOL-Library.Sublist"
begin

section \<open>Data model of the Flight client\<close>

text \<open>
  Byte strings (\<^verbatim>\<open>[]byte\<close> and Go's \<^verbatim>\<open>string\<close>) are lists of characters;
  the conversions \<^verbatim>\<open>string(b)\<close> and \<^verbatim>\<open>[]byte(s)\<close> are the identity.
\<close>

type_synonym bytes = string

text \<open>
  The causes that the transport and the Arrow decoder hand back to the client:
  \<open>EOF\<close> is \<^verbatim>\<open>io.EOF\<close>, \<open>DeadlineExceeded\<close> and \<open>Canceled\<close> are the two context
  errors, \<open>Status m\<close> is any other error with message \<open>m\<close>.
\<close>

datatype err = EOF | DeadlineExceeded | Canceled | Status string

fun err_Error :: "err \<Rightarrow> string" where
  "err_Error EOF = ''EOF''"
| "err_Error DeadlineExceeded = ''context deadline exceeded''"
| "err_Error Canceled = ''context canceled''"
| "err_Error (Status m) = m"

text \<open>
  The errors the client itself builds: \<open>Errorf m (Some e)\<close> is
  \<^verbatim>\<open>fmt.Errorf(m + ": %w", e)\<close>, \<open>Errorf m None\<close> is \<^verbatim>\<open>fmt.Errorf(m)\<close>.
\<close>

datatype error = Errorf string "err option"

fun Error :: "error \<Rightarrow> string" where
  "Error (Errorf m None) = m"
| "Error (Errorf m (Some e)) = m @ '': '' @ err_Error e"

fun Unwrap :: "error \<Rightarrow> err option" where
  "Unwrap (Errorf m c) = c"

text \<open>A columnar batch (\<^verbatim>\<open>arrow.Record\<close>): schema, one buffer per column, row count.\<close>

type_synonym schema = "(string \<times> string) list"

record Batch =
  Schema :: schema
  Columns :: "bytes list"
  NumRows :: nat

datatype DescriptorType = DescriptorUNKNOWN | DescriptorPATH | DescriptorCMD

record FlightDescriptor =
  Type :: DescriptorType
  Cmd :: bytes

text \<open>
  The payload of a frame: \<open>DataMessage\<close> stands for the pair of \<^verbatim>\<open>DataHeader\<close> and
  \<^verbatim>\<open>DataBody\<close> of \<^verbatim>\<open>flight.FlightData\<close>; \<open>NoMessage\<close> is both left empty.
\<close>

datatype message = NoMessage | SchemaMessage schema | RecordBatchMessage nat "bytes list"

record FlightData =
  FlightDescriptor :: "FlightDescriptor option"
  DataMessage :: message
  DataAppMetadata :: bytes

datatype PutResult = PutResult (AppMetadata: bytes)

record FlightInfo =
  FlightDescriptor :: "FlightDescriptor option"
  TotalRecords :: int

datatype Ticket = Ticket (TicketBytes: bytes)

datatype Criteria = Criteria (Expression: bytes)

text \<open>
  The configuration and the client. \<open>Allocator = None\<close> is a \<^verbatim>\<open>nil\<close> allocator. The
  dial options are the three the client passes to gRPC.
\<close>

datatype allocator = GoAllocator | CustomAllocator nat

record FlightClientConfig =
  Addr :: string
  Allocator :: "allocator option"

datatype DialOption = WithTransportCredentials_insecure | WithBlock | grpc_WithTimeout nat

datatype ClientConn = ClientConn string

datatype flight_Client = flight_Client string

record FlightClient =
  client :: flight_Client
  addr :: string
  allocator :: allocator
  conn :: ClientConn

subsection \<open>Time and contexts\<close>

text \<open>
  Time is counted in nanoseconds, as \<^verbatim>\<open>time.Duration\<close> does. A context carries an
  optional deadline. \<open>WithTimeout parent now d\<close> is \<^verbatim>\<open>context.WithTimeout(parent, d)\<close>
  called at time \<open>now\<close>: the deadline of the child is \<open>now + d\<close> unless the parent's is
  earlier.
\<close>

definition Second :: nat where
  "Second = 1000000000"

record Context =
  deadline :: "nat option"

definition WithTimeout :: "Context \<Rightarrow> nat \<Rightarrow> nat \<Rightarrow> Context" where
  "WithTimeout parent now d =
     (case deadline parent of
        None \<Rightarrow> parent\<lparr>deadline := Some (now + d)\<rparr>
      | Some p \<Rightarrow> parent\<lparr>deadline := Some (min p (now + d))\<rparr>)"

subsection \<open>The transport\<close>

text \<open>
  What the channel and the service do when the client performs a blocking operation:
  the operation completes (\<open>Reply\<close>), it fails (\<open>Fail\<close>), or nothing ever comes back
  (\<open>Silent\<close>). \<open>await\<close> is the blocking call under a context: a silent peer ends the call
  with \<open>DeadlineExceeded\<close> when the context has a deadline, and the call never returns
  (\<open>None\<close>) when it has none.
\<close>

datatype 'a reply = Reply 'a | Fail err | Silent

definition await :: "Context \<Rightarrow> 'a reply \<Rightarrow> (err + 'a) option" where
  "await ctx r =
     (case r of
        Reply x \<Rightarrow> Some (Inr x)
      | Fail e \<Rightarrow> Some (Inl e)
      | Silent \<Rightarrow> (case deadline ctx of None \<Rightarrow> None | Some d \<Rightarrow> Some (Inl DeadlineExceeded)))"

text \<open>
  The behaviour of the service and of the channel, a parameter of every operation.
  \<open>send_reply n\<close> answers the write of frame number \<open>n\<close> of a DoPut stream. A DoGet stream
  for a ticket is a schema message, then the batches, then its end; a ListFlights stream
  is the records, then its end. An end that is \<open>Reply ()\<close> is the graceful end of stream.
  \<open>dial_reply\<close> and \<open>newClient_reply\<close> answer the two dials of an address.
\<close>

record transport =
  dial_reply :: "string \<Rightarrow> unit reply"
  newClient_reply :: "string \<Rightarrow> unit reply"
  doPut_reply :: "unit reply"
  send_reply :: "nat \<Rightarrow> unit reply"
  writerClose_reply :: "unit reply"
  putRecv_reply :: "PutResult reply"
  doGet_reply :: "bytes \<Rightarrow> unit reply"
  get_schema :: "bytes \<Rightarrow> unit reply"
  get_batches :: "bytes \<Rightarrow> Batch list"
  get_end :: "bytes \<Rightarrow> unit reply"
  listFlights_reply :: "unit reply"
  list_infos :: "FlightInfo list"
  list_end :: "unit reply"

subsection \<open>The observable world\<close>

text \<open>
  Every call into the Flight, IPC and context libraries is logged, in order, with its
  arguments. Decoded batches live in a store of reference-counted objects: an
  \<^verbatim>\<open>arrow.Record\<close> value held by the program is an address into it.
\<close>

datatype event =
  E_Dial string "DialOption list"
| E_NewClient string "DialOption list"
| E_ConnClose ClientConn
| E_WithTimeout nat
| E_Cancel
| E_DoPut Context
| E_Send FlightData
| E_NewRecordWriter schema
| E_Write Batch
| E_WriterClose
| E_PutRecv
| E_CloseSend
| E_DoGet Context Ticket
| E_NewRecordReader
| E_Next
| E_Err
| E_Record
| E_Retain nat
| E_ReaderRelease
| E_ListFlights Context Criteria
| E_InfoRecv

record world =
  trace :: "event list"
  wire :: "FlightData list"
  refcnt :: "nat \<Rightarrow> nat"
  store :: "nat \<Rightarrow> Batch option"
  fresh :: nat

definition emit :: "event \<Rightarrow> world \<Rightarrow> world" where
  "emit e w = w\<lparr>trace := trace w @ [e]\<rparr>"

text \<open>How a call of the client ends: it returns, it panics, or it never returns.\<close>

datatype 'a outcome = Returns 'a | Panics | Hangs

section \<open>The Arrow and Flight libraries\<close>

subsection \<open>Dialing\<close>

text \<open>
  Modelled from the spec: \<^verbatim>\<open>grpc.Dial\<close>, \<^verbatim>\<open>flight.NewClientWithMiddleware\<close> and the
  connection's \<^verbatim>\<open>Close\<close> are not part of the repository. The spec: dialing blocks until
  the channel is ready or a fixed timeout elapses, and fails on timeout or
  transport-level refusal. A dial without \<^verbatim>\<open>WithBlock\<close> returns at once; a blocking dial
  to a silent peer ends with \<open>DeadlineExceeded\<close> when a timeout option is given and never
  returns otherwise. The Flight client constructor dials the address with the options it
  is given.
\<close>

fun dial_timeout :: "DialOption list \<Rightarrow> nat option" where
  "dial_timeout [] = None"
| "dial_timeout (grpc_WithTimeout d # opts) = Some d"
| "dial_timeout (opt # opts) = dial_timeout opts"

definition dial_await :: "DialOption list \<Rightarrow> unit reply \<Rightarrow> (err + unit) option" where
  "dial_await opts r =
     (if WithBlock \<in> set opts
      then (case r of
              Reply u \<Rightarrow> Some (Inr ())
            | Fail e \<Rightarrow> Some (Inl e)
            | Silent \<Rightarrow> (case dial_timeout opts of
                           None \<Rightarrow> None
                         | Some d \<Rightarrow> Some (Inl DeadlineExceeded)))
      else Some (Inr ()))"

definition grpc_Dial ::
  "transport \<Rightarrow> string \<Rightarrow> DialOption list \<Rightarrow> world \<Rightarrow> (err + ClientConn) option \<times> world" where
  "grpc_Dial tr target opts w =
     (let w1 = emit (E_Dial target opts) w in
      case dial_await opts (dial_reply tr target) of
        None \<Rightarrow> (None, w1)
      | Some (Inl e) \<Rightarrow> (Some (Inl e), w1)
      | Some (Inr u) \<Rightarrow> (Some (Inr (ClientConn target)), w1))"

definition flight_NewClientWithMiddleware ::
  "transport \<Rightarrow> string \<Rightarrow> DialOption list \<Rightarrow> world \<Rightarrow> (err + flight_Client) option \<times> world" where
  "flight_NewClientWithMiddleware tr target opts w =
     (let w1 = emit (E_NewClient target opts) w in
      case dial_await opts (newClient_reply tr target) of
        None \<Rightarrow> (None, w1)
      | Some (Inl e) \<Rightarrow> (Some (Inl e), w1)
      | Some (Inr u) \<Rightarrow> (Some (Inr (flight_Client target)), w1))"

definition conn_Close :: "ClientConn \<Rightarrow> world \<Rightarrow> world" where
  "conn_Close c w = emit (E_ConnClose c) w"

subsection \<open>Reference-counted records\<close>

text \<open>
  Modelled from the spec: the Arrow library's \<^verbatim>\<open>Retain\<close> and \<^verbatim>\<open>Release\<close> of a record
  are not part of the repository. The spec: "retain" increments a count, "release"
  decrements and frees at zero. A freed record is no longer in the store.
\<close>

definition Record_Retain :: "nat \<Rightarrow> world \<Rightarrow> world" where
  "Record_Retain a w = emit (E_Retain a) (w\<lparr>refcnt := (refcnt w)(a := refcnt w a + 1)\<rparr>)"

definition Record_Release :: "nat \<Rightarrow> world \<Rightarrow> world" where
  "Record_Release a w =
     (let n = refcnt w a - 1 in
      w\<lparr>refcnt := (refcnt w)(a := n),
        store := (if n = 0 then (store w)(a := None) else store w)\<rparr>)"

text \<open>A record that is valid: it is still held by someone and its data is in the store.\<close>

definition valid_record :: "world \<Rightarrow> nat \<Rightarrow> bool" where
  "valid_record w a = (1 \<le> refcnt w a \<and> store w a \<noteq> None)"

subsection \<open>The record reader of a DoGet stream\<close>

text \<open>
  Modelled from the spec: \<^verbatim>\<open>flight.NewRecordReader\<close> and the reader's \<^verbatim>\<open>Next\<close>,
  \<^verbatim>\<open>Err\<close>, \<^verbatim>\<open>Record\<close> and \<^verbatim>\<open>Release\<close> are not part of the repository. The spec: a
  streaming decoder bound to the stream's self-declared schema decodes the stream into
  zero or more batches; the decoder, when released, drops its claim on all buffers it
  produced. The reader is created with one reference of its own; it holds one claim on
  the record of the current iteration and drops it when it advances or is torn down.
\<close>

record reader =
  rd_ctx :: Context
  rd_pending :: "Batch list"
  rd_end :: "unit reply"
  rd_rec :: "nat option"
  rd_err :: "err option"
  rd_done :: bool
  rd_refCount :: nat

definition flight_DoGet ::
  "transport \<Rightarrow> Context \<Rightarrow> Ticket \<Rightarrow> world \<Rightarrow> err option option \<times> world" where
  "flight_DoGet tr ctx ticket w =
     (let w1 = emit (E_DoGet ctx ticket) w in
      case await ctx (doGet_reply tr (TicketBytes ticket)) of
        None \<Rightarrow> (None, w1)
      | Some (Inl e) \<Rightarrow> (Some (Some e), w1)
      | Some (Inr u) \<Rightarrow> (Some None, w1))"

definition NewRecordReader ::
  "transport \<Rightarrow> Context \<Rightarrow> Ticket \<Rightarrow> world \<Rightarrow> (err + reader) option \<times> world" where
  "NewRecordReader tr ctx ticket w =
     (let w1 = emit E_NewRecordReader w in
      case await ctx (get_schema tr (TicketBytes ticket)) of
        None \<Rightarrow> (None, w1)
      | Some (Inl e) \<Rightarrow> (Some (Inl e), w1)
      | Some (Inr u) \<Rightarrow>
          (Some (Inr \<lparr>rd_ctx = ctx, rd_pending = get_batches tr (TicketBytes ticket),
                       rd_end = get_end tr (TicketBytes ticket), rd_rec = None,
                       rd_err = None, rd_done = False, rd_refCount = 1\<rparr>), w1))"

text \<open>Decoding a batch allocates a fresh record, held once, by the reader.\<close>

definition NewRecord :: "Batch \<Rightarrow> world \<Rightarrow> nat \<times> world" where
  "NewRecord b w =
     (let a = fresh w in
      (a, w\<lparr>refcnt := (refcnt w)(a := 1), store := (store w)(a := Some b), fresh := Suc a\<rparr>))"

definition reader_Next :: "reader \<Rightarrow> world \<Rightarrow> bool option \<times> reader \<times> world" where
  "reader_Next r w =
     (let w1 = emit E_Next w;
          w2 = (case rd_rec r of None \<Rightarrow> w1 | Some a \<Rightarrow> Record_Release a w1);
          r1 = r\<lparr>rd_rec := None\<rparr>
      in if rd_err r1 \<noteq> None \<or> rd_done r1 then (Some False, r1, w2)
         else case rd_pending r1 of
                b # bs \<Rightarrow>
                  (let (a, w3) = NewRecord b w2
                   in (Some True, r1\<lparr>rd_rec := Some a, rd_pending := bs\<rparr>, w3))
              | [] \<Rightarrow>
                  (case await (rd_ctx r1) (rd_end r1) of
                     None \<Rightarrow> (None, r1, w2)
                   | Some (Inr u) \<Rightarrow> (Some False, r1\<lparr>rd_done := True\<rparr>, w2)
                   | Some (Inl e) \<Rightarrow> (Some False, r1\<lparr>rd_done := True, rd_err := Some e\<rparr>, w2)))"

definition reader_Err :: "reader \<Rightarrow> world \<Rightarrow> err option \<times> world" where
  "reader_Err r w = (rd_err r, emit E_Err w)"

definition reader_Record :: "reader \<Rightarrow> world \<Rightarrow> nat option \<times> world" where
  "reader_Record r w = (rd_rec r, emit E_Record w)"

definition reader_Release :: "reader \<Rightarrow> world \<Rightarrow> reader \<times> world" where
  "reader_Release r w =
     (let w1 = emit E_ReaderRelease w;
          n = rd_refCount r - 1
      in if n = 0
         then (case rd_rec r of
                 None \<Rightarrow> (r\<lparr>rd_refCount := n\<rparr>, w1)
               | Some a \<Rightarrow> (r\<lparr>rd_refCount := n, rd_rec := None\<rparr>, Record_Release a w1))
         else (r\<lparr>rd_refCount := n\<rparr>, w1))"

subsection \<open>The DoPut stream and its record writer\<close>

text \<open>
  Modelled from the spec: the Flight client's \<^verbatim>\<open>DoPut\<close>, the stream's \<^verbatim>\<open>Send\<close> and
  \<^verbatim>\<open>Recv\<close>, and \<^verbatim>\<open>flight.NewRecordWriter\<close> with the writer's \<^verbatim>\<open>Write\<close> and
  \<^verbatim>\<open>Close\<close> are not part of the repository. The spec: the batch is streamed as a
  self-describing sequence, a schema frame followed by the data frames carrying the
  column buffers; the service answers with one acknowledgement frame. A new stream
  starts with an empty wire; a frame that was written is appended to it; the writer
  writes its schema frame before its first batch. The write side of a stream is closed
  by the stream's own \<^verbatim>\<open>CloseSend\<close>, which logs \<open>E_CloseSend\<close>; the \<^verbatim>\<open>Close\<close> of the
  record writer ends the writer and leaves the stream as it is.
\<close>

definition flight_DoPut :: "transport \<Rightarrow> Context \<Rightarrow> world \<Rightarrow> err option option \<times> world" where
  "flight_DoPut tr ctx w =
     (let w1 = emit (E_DoPut ctx) w in
      case await ctx (doPut_reply tr) of
        None \<Rightarrow> (None, w1)
      | Some (Inl e) \<Rightarrow> (Some (Some e), w1)
      | Some (Inr u) \<Rightarrow> (Some None, w1\<lparr>wire := []\<rparr>))"

definition stream_Send ::
  "transport \<Rightarrow> Context \<Rightarrow> FlightData \<Rightarrow> world \<Rightarrow> err option option \<times> world" where
  "stream_Send tr ctx fd w =
     (let w1 = emit (E_Send fd) w in
      case await ctx (send_reply tr (length (wire w))) of
        None \<Rightarrow> (None, w1)
      | Some (Inl e) \<Rightarrow> (Some (Some e), w1)
      | Some (Inr u) \<Rightarrow> (Some None, w1\<lparr>wire := wire w1 @ [fd]\<rparr>))"

definition stream_Recv ::
  "transport \<Rightarrow> Context \<Rightarrow> world \<Rightarrow> (err + PutResult) option \<times> world" where
  "stream_Recv tr ctx w = (await ctx (putRecv_reply tr), emit E_PutRecv w)"

record writer =
  wr_schema :: schema
  wr_started :: bool

definition NewRecordWriter :: "schema \<Rightarrow> world \<Rightarrow> writer \<times> world" where
  "NewRecordWriter sc w = (\<lparr>wr_schema = sc, wr_started = False\<rparr>, emit (E_NewRecordWriter sc) w)"

definition schema_frame :: "schema \<Rightarrow> FlightData" where
  "schema_frame sc =
     \<lparr>FlightData.FlightDescriptor = None, DataMessage = SchemaMessage sc, DataAppMetadata = []\<rparr>"

definition data_frame :: "Batch \<Rightarrow> FlightData" where
  "data_frame b =
     \<lparr>FlightData.FlightDescriptor = None,
      DataMessage = RecordBatchMessage (NumRows b) (Columns b), DataAppMetadata = []\<rparr>"

definition writer_Write ::
  "transport \<Rightarrow> Context \<Rightarrow> writer \<Rightarrow> Batch \<Rightarrow> world \<Rightarrow> err option option \<times> writer \<times> world" where
  "writer_Write tr ctx wr b w =
     (let w1 = emit (E_Write b) w;
          wr1 = wr\<lparr>wr_started := True\<rparr>
      in case (if wr_started wr then (Some None, w1)
               else stream_Send tr ctx (schema_frame (wr_schema wr)) w1) of
           (None, w2) \<Rightarrow> (None, wr1, w2)
         | (Some (Some e), w2) \<Rightarrow> (Some (Some e), wr1, w2)
         | (Some None, w2) \<Rightarrow>
             (if Schema b \<noteq> wr_schema wr
              then (Some (Some (Status ''arrow/ipc: tried to write record batch with different schema'')), wr1, w2)
              else case stream_Send tr ctx (data_frame b) w2 of (r, w3) \<Rightarrow> (r, wr1, w3)))"

definition writer_Close ::
  "transport \<Rightarrow> Context \<Rightarrow> writer \<Rightarrow> world \<Rightarrow> err option option \<times> world" where
  "writer_Close tr ctx wr w =
     (let w1 = emit E_WriterClose w in
      case await ctx (writerClose_reply tr) of
        None \<Rightarrow> (None, w1)
      | Some (Inl e) \<Rightarrow> (Some (Some e), w1)
      | Some (Inr u) \<Rightarrow> (Some None, w1))"

definition stream_CloseSend :: "world \<Rightarrow> world" where
  "stream_CloseSend w = emit E_CloseSend w"

subsection \<open>The ListFlights stream\<close>

text \<open>
  Modelled from the spec: the Flight client's \<^verbatim>\<open>ListFlights\<close> and the \<^verbatim>\<open>Recv\<close> of its
  stream are not part of the repository. The spec: the call opens a stream of
  batch-metadata records, read until the stream ends. At the graceful end of the stream
  \<^verbatim>\<open>Recv\<close> fails with \<^verbatim>\<open>io.EOF\<close>.
\<close>

record list_stream =
  ls_ctx :: Context
  ls_pending :: "FlightInfo list"
  ls_end :: "unit reply"

definition flight_ListFlights ::
  "transport \<Rightarrow> Context \<Rightarrow> Criteria \<Rightarrow> world \<Rightarrow> (err + list_stream) option \<times> world" where
  "flight_ListFlights tr ctx criteria w =
     (let w1 = emit (E_ListFlights ctx criteria) w in
      case await ctx (listFlights_reply tr) of
        None \<Rightarrow> (None, w1)
      | Some (Inl e) \<Rightarrow> (Some (Inl e), w1)
      | Some (Inr u) \<Rightarrow>
          (Some (Inr \<lparr>ls_ctx = ctx, ls_pending = list_infos tr, ls_end = list_end tr\<rparr>), w1))"

definition info_Recv :: "list_stream \<Rightarrow> world \<Rightarrow> (err + FlightInfo) option \<times> list_stream \<times> world" where
  "info_Recv s w =
     (let w1 = emit E_InfoRecv w in
      case ls_pending s of
        info # rest \<Rightarrow> (Some (Inr info), s\<lparr>ls_pending := rest\<rparr>, w1)
      | [] \<Rightarrow>
          (case await (ls_ctx s) (ls_end s) of
             None \<Rightarrow> (None, s, w1)
           | Some (Inr u) \<Rightarrow> (Some (Inl EOF), s, w1)
           | Some (Inl e) \<Rightarrow> (Some (Inl e), s, w1)))"

section \<open>The client\<close>

subsection \<open>NewFlightClient\<close>

text \<open>\<^verbatim>\<open>NewFlightClient\<close> returns a pair (client, error).\<close>

type_synonym new_result = "FlightClient option \<times> error option"

definition NewFlightClient ::
  "transport \<Rightarrow> FlightClientConfig \<Rightarrow> world \<Rightarrow> new_result outcome \<times> world" where
  "NewFlightClient tr config w =
     (let config1 = (if Addr config = [] then config\<lparr>Addr := ''localhost:8080''\<rparr> else config);
          config2 = (if Allocator config1 = None then config1\<lparr>Allocator := Some GoAllocator\<rparr>
                     else config1);
          opts = [WithTransportCredentials_insecure, WithBlock, grpc_WithTimeout (5 * Second)]
      in case grpc_Dial tr (Addr config2) opts w of
           (None, w1) \<Rightarrow> (Hangs, w1)
         | (Some (Inl e), w1) \<Rightarrow>
             (Returns (None, Some (Errorf (''failed to connect to Flight server at '' @ Addr config2)
                                     (Some e))), w1)
         | (Some (Inr cn), w1) \<Rightarrow>
             (case flight_NewClientWithMiddleware tr (Addr config2) opts w1 of
                (None, w2) \<Rightarrow> (Hangs, w2)
              | (Some (Inl e), w2) \<Rightarrow>
                  (Returns (None, Some (Errorf ''failed to create Flight client'' (Some e))),
                   conn_Close cn w2)
              | (Some (Inr cl), w2) \<Rightarrow>
                  (case Allocator config2 of
                     None \<Rightarrow> (Panics, w2)
                   | Some al \<Rightarrow>
                       (Returns (Some \<lparr>client = cl, addr = Addr config2, allocator = al, conn = cn\<rparr>,
                                 None), w2))))"

subsection \<open>GetBatch\<close>

text \<open>
  \<^verbatim>\<open>GetBatch\<close> returns a pair (record, error), \<^verbatim>\<open>nil\<close> being \<open>None\<close>. It is split
  where its deferred calls are registered: \<open>GetBatch_read\<close> is the code after
  \<^verbatim>\<open>defer reader.Release()\<close>, \<open>GetBatch_stream\<close> the code after \<^verbatim>\<open>defer cancel()\<close>.
  A deferred call runs when the function returns or panics, after the result has been
  computed.
\<close>

type_synonym get_result = "nat option \<times> error option"

definition GetBatch_read :: "reader \<Rightarrow> world \<Rightarrow> get_result outcome \<times> reader \<times> world" where
  "GetBatch_read reader w =
     (case reader_Next reader w of
        (None, r1, w1) \<Rightarrow> (Hangs, r1, w1)
      | (Some False, r1, w1) \<Rightarrow>
          (case reader_Err r1 w1 of
             (Some e, w2) \<Rightarrow> (Returns (None, Some (Errorf ''error reading batch'' (Some e))), r1, w2)
           | (None, w2) \<Rightarrow> (Returns (None, Some (Errorf ''no batch received'' None)), r1, w2))
      | (Some True, r1, w1) \<Rightarrow>
          (case reader_Record r1 w1 of
             (None, w2) \<Rightarrow> (Panics, r1, w2)
           | (Some batch, w2) \<Rightarrow> (Returns (Some batch, None), r1, Record_Retain batch w2)))"

definition GetBatch_stream ::
  "transport \<Rightarrow> Context \<Rightarrow> bytes \<Rightarrow> world \<Rightarrow> get_result outcome \<times> world" where
  "GetBatch_stream tr ctx batchID w =
     (let ticket = Ticket batchID in
      case flight_DoGet tr ctx ticket w of
        (None, w1) \<Rightarrow> (Hangs, w1)
      | (Some (Some e), w1) \<Rightarrow>
          (Returns (None, Some (Errorf ''failed to start DoGet stream'' (Some e))), w1)
      | (Some None, w1) \<Rightarrow>
          (case NewRecordReader tr ctx ticket w1 of
             (None, w2) \<Rightarrow> (Hangs, w2)
           | (Some (Inl e), w2) \<Rightarrow>
               (Returns (None, Some (Errorf ''failed to create record reader'' (Some e))), w2)
           | (Some (Inr reader), w2) \<Rightarrow>
               (case GetBatch_read reader w2 of
                  (Hangs, r3, w3) \<Rightarrow> (Hangs, w3)
                | (out, r3, w3) \<Rightarrow> (out, snd (reader_Release r3 w3)))))"

definition GetBatch ::
  "transport \<Rightarrow> Context \<Rightarrow> nat \<Rightarrow> bytes \<Rightarrow> world \<Rightarrow> get_result outcome \<times> world" where
  "GetBatch tr ctx now batchID w =
     (let ctx' = WithTimeout ctx now (30 * Second);
          w0 = emit (E_WithTimeout (30 * Second)) w
      in case GetBatch_stream tr ctx' batchID w0 of
           (Hangs, w1) \<Rightarrow> (Hangs, w1)
         | (out, w1) \<Rightarrow> (out, emit E_Cancel w1))"

subsection \<open>PutBatch\<close>

text \<open>
  \<^verbatim>\<open>PutBatch\<close> returns a pair (identifier, error). \<open>PutBatch_stream\<close> is the code after
  \<^verbatim>\<open>defer cancel()\<close>.
\<close>

type_synonym put_result = "string \<times> error option"

definition PutBatch_stream ::
  "transport \<Rightarrow> Context \<Rightarrow> Batch \<Rightarrow> world \<Rightarrow> put_result outcome \<times> world" where
  "PutBatch_stream tr ctx batch w =
     (let descriptor = \<lparr>Type = DescriptorCMD, Cmd = ''put''\<rparr> in
      case flight_DoPut tr ctx w of
        (None, w1) \<Rightarrow> (Hangs, w1)
      | (Some (Some e), w1) \<Rightarrow>
          (Returns ('''', Some (Errorf ''failed to start DoPut stream'' (Some e))), w1)
      | (Some None, w1) \<Rightarrow>
          (case stream_Send tr ctx
                  \<lparr>FlightData.FlightDescriptor = Some descriptor, DataMessage = NoMessage,
                   DataAppMetadata = []\<rparr> w1 of
             (None, w2) \<Rightarrow> (Hangs, w2)
           | (Some (Some e), w2) \<Rightarrow>
               (Returns ('''', Some (Errorf ''failed to send descriptor'' (Some e))), w2)
           | (Some None, w2) \<Rightarrow>
               (case NewRecordWriter (Schema batch) w2 of
                  (writer, w3) \<Rightarrow>
                    (case writer_Write tr ctx writer batch w3 of
                       (None, writer1, w4) \<Rightarrow> (Hangs, w4)
                     | (Some (Some e), writer1, w4) \<Rightarrow>
                         (case writer_Close tr ctx writer1 w4 of
                            (None, w5) \<Rightarrow> (Hangs, w5)
                          | (Some ignored, w5) \<Rightarrow>
                              (Returns ('''', Some (Errorf ''failed to write batch to stream'' (Some e))), w5))
                     | (Some None, writer1, w4) \<Rightarrow>
                         (case writer_Close tr ctx writer1 w4 of
                            (None, w5) \<Rightarrow> (Hangs, w5)
                          | (Some (Some e), w5) \<Rightarrow>
                              (Returns ('''', Some (Errorf ''failed to close writer'' (Some e))), w5)
                          | (Some None, w5) \<Rightarrow>
                              (case stream_Recv tr ctx w5 of
                                 (None, w6) \<Rightarrow> (Hangs, w6)
                               | (Some (Inl e), w6) \<Rightarrow>
                                   (Returns ('''', Some (Errorf ''failed to receive result'' (Some e))), w6)
                               | (Some (Inr result), w6) \<Rightarrow>
                                   (Returns (AppMetadata result, None), w6)))))))"

definition PutBatch ::
  "transport \<Rightarrow> Context \<Rightarrow> nat \<Rightarrow> Batch \<Rightarrow> world \<Rightarrow> put_result outcome \<times> world" where
  "PutBatch tr ctx now batch w =
     (let ctx' = WithTimeout ctx now (30 * Second);
          w0 = emit (E_WithTimeout (30 * Second)) w
      in case PutBatch_stream tr ctx' batch w0 of
           (Hangs, w1) \<Rightarrow> (Hangs, w1)
         | (out, w1) \<Rightarrow> (out, emit E_Cancel w1))"

subsection \<open>ListBatches\<close>

text \<open>
  \<^verbatim>\<open>ListBatches\<close> returns a pair (identifiers, error); a \<^verbatim>\<open>nil\<close> slice is the empty
  list. \<open>ListBatches_loop\<close> is the \<^verbatim>\<open>for\<close> loop: every round receives one record and
  reads \<^verbatim>\<open>info.FlightDescriptor.Cmd\<close>, which panics when the descriptor is \<^verbatim>\<open>nil\<close>.
\<close>

type_synonym list_result = "string list \<times> error option"

function ListBatches_loop ::
  "list_stream \<Rightarrow> string list \<Rightarrow> world \<Rightarrow> list_result outcome \<times> world" where
  "ListBatches_loop stream batchIDs w =
     (case info_Recv stream w of
        (None, s1, w1) \<Rightarrow> (Hangs, w1)
      | (Some (Inl e), s1, w1) \<Rightarrow> (Returns (batchIDs, None), w1)
      | (Some (Inr info), s1, w1) \<Rightarrow>
          (case FlightInfo.FlightDescriptor info of
             None \<Rightarrow> (Panics, w1)
           | Some d \<Rightarrow> ListBatches_loop s1 (batchIDs @ [Cmd d]) w1))"
  by pat_completeness auto
termination
  by (relation "measure (\<lambda>(s, ids, w). length (ls_pending s))")
     (auto simp: info_Recv_def Let_def split: list.splits option.splits sum.splits)

declare ListBatches_loop.simps [simp del]

definition ListBatches_stream ::
  "transport \<Rightarrow> Context \<Rightarrow> world \<Rightarrow> list_result outcome \<times> world" where
  "ListBatches_stream tr ctx w =
     (let criteria = Criteria [] in
      case flight_ListFlights tr ctx criteria w of
        (None, w1) \<Rightarrow> (Hangs, w1)
      | (Some (Inl e), w1) \<Rightarrow>
          (Returns ([], Some (Errorf ''failed to start ListFlights stream'' (Some e))), w1)
      | (Some (Inr stream), w1) \<Rightarrow> ListBatches_loop stream [] w1)"

definition ListBatches ::
  "transport \<Rightarrow> Context \<Rightarrow> nat \<Rightarrow> world \<Rightarrow> list_result outcome \<times> world" where
  "ListBatches tr ctx now w =
     (let ctx' = WithTimeout ctx now (30 * Second);
          w0 = emit (E_WithTimeout (30 * Second)) w
      in case ListBatches_stream tr ctx' w0 of
           (Hangs, w1) \<Rightarrow> (Hangs, w1)
         | (out, w1) \<Rightarrow> (out, emit E_Cancel w1))"

section \<open>Notions used to state the properties\<close>

text \<open>
  The cause a blocking operation ends with under a context that has a deadline: none when
  the peer replies, the failure when it fails, \<open>DeadlineExceeded\<close> when it stays silent.
\<close>

definition cause :: "'a reply \<Rightarrow> err option" where
  "cause r = (case r of Reply x \<Rightarrow> None | Fail e \<Rightarrow> Some e | Silent \<Rightarrow> Some DeadlineExceeded)"

definition logged :: "event list \<Rightarrow> world \<Rightarrow> world" where
  "logged es w = w\<lparr>trace := trace w @ es\<rparr>"

text \<open>The events of one call: what the trace gained between its start and its end.\<close>

definition events_since :: "world \<Rightarrow> world \<Rightarrow> event list" where
  "events_since w w' = drop (length (trace w)) (trace w')"

text \<open>\<open>happens_before x y es\<close>: \<open>y\<close> occurs in \<open>es\<close>, and \<open>x\<close> occurs before its first occurrence.\<close>

fun happens_before :: "'a \<Rightarrow> 'a \<Rightarrow> 'a list \<Rightarrow> bool" where
  "happens_before x y [] = False"
| "happens_before x y (e # es) =
     (if e = y then False else if e = x then y \<in> set es else happens_before x y es)"

text \<open>The frames a call tried to write, and the tickets it submitted, in order.\<close>

fun sent_frames :: "event list \<Rightarrow> FlightData list" where
  "sent_frames [] = []"
| "sent_frames (E_Send fd # es) = fd # sent_frames es"
| "sent_frames (e # es) = sent_frames es"

fun tickets :: "event list \<Rightarrow> Ticket list" where
  "tickets [] = []"
| "tickets (E_DoGet c t # es) = t # tickets es"
| "tickets (e # es) = tickets es"

text \<open>The contexts under which a call opened its streams.\<close>

fun stream_contexts :: "event list \<Rightarrow> Context list" where
  "stream_contexts [] = []"
| "stream_contexts (E_DoPut c # es) = c # stream_contexts es"
| "stream_contexts (E_DoGet c t # es) = c # stream_contexts es"
| "stream_contexts (E_ListFlights c cr # es) = c # stream_contexts es"
| "stream_contexts (e # es) = stream_contexts es"

text \<open>The first frame of an upload: a command descriptor tagged "put", with no payload.\<close>

definition descriptor_frame :: FlightData where
  "descriptor_frame =
     \<lparr>FlightData.FlightDescriptor = Some \<lparr>Type = DescriptorCMD, Cmd = ''put''\<rparr>,
      DataMessage = NoMessage, DataAppMetadata = []\<rparr>"

text \<open>A result is a timeout error when its error wraps \<open>DeadlineExceeded\<close>.\<close>

fun timeout_error :: "('a \<times> error option) outcome \<Rightarrow> bool" where
  "timeout_error (Returns (x, Some e)) = (Unwrap e = Some DeadlineExceeded)"
| "timeout_error out = False"

text \<open>
  The cause a sequence of steps ends with: that of its first step that is not answered.
  The steps of an upload are the opening of the stream, the three frames, the closing of
  the writer and then the acknowledgement; the steps of a download are the opening, the
  schema and, for a stream without batches, its end.
\<close>

fun first_cause :: "err option list \<Rightarrow> err option" where
  "first_cause [] = None"
| "first_cause (None # cs) = first_cause cs"
| "first_cause (Some e # cs) = Some e"

definition put_steps_before_ack :: "transport \<Rightarrow> err option list" where
  "put_steps_before_ack tr =
     [cause (doPut_reply tr), cause (send_reply tr 0), cause (send_reply tr 1),
      cause (send_reply tr 2), cause (writerClose_reply tr)]"

definition put_steps :: "transport \<Rightarrow> err option list" where
  "put_steps tr = put_steps_before_ack tr @ [cause (putRecv_reply tr)]"

definition get_steps :: "transport \<Rightarrow> bytes \<Rightarrow> err option list" where
  "get_steps tr batchID =
     [cause (doGet_reply tr batchID), cause (get_schema tr batchID)] @
     (if get_batches tr batchID = [] then [cause (get_end tr batchID)] else [])"

text \<open>
  The address and the allocator a configuration stands for once the defaults are filled
  in, and the options every dial is made with.
\<close>

definition effective_addr :: "FlightClientConfig \<Rightarrow> string" where
  "effective_addr config = (if Addr config = [] then ''localhost:8080'' else Addr config)"

definition effective_allocator :: "FlightClientConfig \<Rightarrow> allocator" where
  "effective_allocator config = (case Allocator config of None \<Rightarrow> GoAllocator | Some a \<Rightarrow> a)"

definition dial_options :: "DialOption list" where
  "dial_options = [WithTransportCredentials_insecure, WithBlock, grpc_WithTimeout (5 * Second)]"

section \<open>Example runs\<close>

definition world0 :: world where
  "world0 = \<lparr>trace = [], wire = [], refcnt = (\<lambda>a. 0), store = (\<lambda>a. None), fresh = 0\<rparr>"

definition background :: Context where
  "background = \<lparr>deadline = None\<rparr>"

definition batch0 :: Batch where
  "batch0 = \<lparr>Schema = [(''x'', ''int64'')], Columns = [''abc''], NumRows = 3\<rparr>"

definition batch1 :: Batch where
  "batch1 = \<lparr>Schema = [(''x'', ''int64'')], Columns = [''de''], NumRows = 2\<rparr>"

definition info0 :: FlightInfo where
  "info0 = \<lparr>FlightInfo.FlightDescriptor = Some \<lparr>Type = DescriptorCMD, Cmd = ''id-1''\<rparr>,
            TotalRecords = 3\<rparr>"

definition info1 :: FlightInfo where
  "info1 = \<lparr>FlightInfo.FlightDescriptor = Some \<lparr>Type = DescriptorCMD, Cmd = ''id-2''\<rparr>,
            TotalRecords = 2\<rparr>"

definition info_nil :: FlightInfo where
  "info_nil = \<lparr>FlightInfo.FlightDescriptor = None, TotalRecords = 0\<rparr>"

text \<open>A service that answers every request, and holds two batches under "id-1".\<close>

definition service_ok :: transport where
  "service_ok =
     \<lparr>dial_reply = (\<lambda>t. Reply ()), newClient_reply = (\<lambda>t. Reply ()),
      doPut_reply = Reply (), send_reply = (\<lambda>n. Reply ()), writerClose_reply = Reply (),
      putRecv_reply = Reply (PutResult ''id-1''), doGet_reply = (\<lambda>t. Reply ()),
      get_schema = (\<lambda>t. Reply ()),
      get_batches = (\<lambda>t. if t = ''id-1'' then [batch0, batch1] else []),
      get_end = (\<lambda>t. Reply ()), listFlights_reply = Reply (),
      list_infos = [info0, info1], list_end = Reply ()\<rparr>"

text \<open>The same service, whose ListFlights stream opens and then never sends anything.\<close>

definition service_list_stalled :: transport where
  "service_list_stalled = service_ok\<lparr>list_infos := [], list_end := Silent\<rparr>"

text \<open>The same service, sending a record without a descriptor after the first one.\<close>

definition service_list_nil :: transport where
  "service_list_nil = service_ok\<lparr>list_infos := [info0, info_nil, info1]\<rparr>"

text \<open>The same service, whose acknowledgement of an upload never arrives.\<close>

definition service_put_stalled :: transport where
  "service_put_stalled = service_ok\<lparr>putRecv_reply := Silent\<rparr>"

text \<open>A service that refuses every dial.\<close>

definition service_refusing :: transport where
  "service_refusing = service_ok\<lparr>dial_reply := (\<lambda>t. Fail (Status ''connection refused''))\<rparr>"

section \<open>The runs of the client\<close>

text \<open>
  Under a context with a deadline every blocking operation ends, so every run of the
  client can be written out: its result, its events and the world it leaves.
\<close>

lemma deadline_WithTimeout:
  "\<exists>d. deadline (WithTimeout ctx now t) = Some d \<and> d \<le> now + t \<and>
       (\<forall>p. deadline ctx = Some p \<longrightarrow> d \<le> p)"
  by (simp add: WithTimeout_def split: option.splits)

lemma await_deadline:
  "deadline c = Some d \<Longrightarrow>
   await c r = Some (case r of Reply x \<Rightarrow> Inr x | Fail e \<Rightarrow> Inl e | Silent \<Rightarrow> Inl DeadlineExceeded)"
  by (simp add: await_def split: reply.splits)

lemma GetBatch_stream_run:
  assumes dl: "deadline c = Some d"
  shows "GetBatch_stream tr c batchID w =
    (case cause (doGet_reply tr batchID) of
       Some e \<Rightarrow> (Returns (None, Some (Errorf ''failed to start DoGet stream'' (Some e))),
                  logged [E_DoGet c (Ticket batchID)] w)
     | None \<Rightarrow>
      (case cause (get_schema tr batchID) of
         Some e \<Rightarrow> (Returns (None, Some (Errorf ''failed to create record reader'' (Some e))),
                    logged [E_DoGet c (Ticket batchID), E_NewRecordReader] w)
       | None \<Rightarrow>
        (case get_batches tr batchID of
           [] \<Rightarrow>
            (case cause (get_end tr batchID) of
               Some e \<Rightarrow> (Returns (None, Some (Errorf ''error reading batch'' (Some e))),
                          logged [E_DoGet c (Ticket batchID), E_NewRecordReader, E_Next, E_Err,
                               E_ReaderRelease] w)
             | None \<Rightarrow> (Returns (None, Some (Errorf ''no batch received'' None)),
                        logged [E_DoGet c (Ticket batchID), E_NewRecordReader, E_Next, E_Err,
                             E_ReaderRelease] w))
         | b # bs \<Rightarrow>
            (Returns (Some (fresh w), None),
             logged [E_DoGet c (Ticket batchID), E_NewRecordReader, E_Next, E_Record,
                  E_Retain (fresh w), E_ReaderRelease]
               (w\<lparr>refcnt := (refcnt w)(fresh w := 1), store := (store w)(fresh w := Some b),
                  fresh := Suc (fresh w)\<rparr>)))))"
  by (simp add: GetBatch_stream_def GetBatch_read_def flight_DoGet_def NewRecordReader_def
      reader_Next_def reader_Err_def reader_Record_def reader_Release_def
      Record_Retain_def Record_Release_def NewRecord_def emit_def logged_def Let_def cause_def
      await_deadline[OF dl]
      split: reply.splits list.splits)

lemma PutBatch_stream_run:
  assumes dl: "deadline c = Some d"
  shows "PutBatch_stream tr c batch w =
    (case cause (doPut_reply tr) of
       Some e \<Rightarrow> (Returns ('''', Some (Errorf ''failed to start DoPut stream'' (Some e))),
                  logged [E_DoPut c] w)
     | None \<Rightarrow>
      (case cause (send_reply tr 0) of
         Some e \<Rightarrow> (Returns ('''', Some (Errorf ''failed to send descriptor'' (Some e))),
                    logged [E_DoPut c, E_Send descriptor_frame] (w\<lparr>wire := []\<rparr>))
       | None \<Rightarrow>
        (case cause (send_reply tr 1) of
           Some e \<Rightarrow> (Returns ('''', Some (Errorf ''failed to write batch to stream'' (Some e))),
                      logged [E_DoPut c, E_Send descriptor_frame, E_NewRecordWriter (Schema batch),
                           E_Write batch, E_Send (schema_frame (Schema batch)), E_WriterClose]
                        (w\<lparr>wire := [descriptor_frame]\<rparr>))
         | None \<Rightarrow>
          (case cause (send_reply tr 2) of
             Some e \<Rightarrow> (Returns ('''', Some (Errorf ''failed to write batch to stream'' (Some e))),
                        logged [E_DoPut c, E_Send descriptor_frame, E_NewRecordWriter (Schema batch),
                             E_Write batch, E_Send (schema_frame (Schema batch)),
                             E_Send (data_frame batch), E_WriterClose]
                          (w\<lparr>wire := [descriptor_frame, schema_frame (Schema batch)]\<rparr>))
           | None \<Rightarrow>
            (case cause (writerClose_reply tr) of
               Some e \<Rightarrow> (Returns ('''', Some (Errorf ''failed to close writer'' (Some e))),
                          logged [E_DoPut c, E_Send descriptor_frame, E_NewRecordWriter (Schema batch),
                               E_Write batch, E_Send (schema_frame (Schema batch)),
                               E_Send (data_frame batch), E_WriterClose]
                            (w\<lparr>wire := [descriptor_frame, schema_frame (Schema batch),
                                         data_frame batch]\<rparr>))
             | None \<Rightarrow>
              (case putRecv_reply tr of
                 Reply result \<Rightarrow>
                   (Returns (AppMetadata result, None),
                    logged [E_DoPut c, E_Send descriptor_frame, E_NewRecordWriter (Schema batch),
                         E_Write batch, E_Send (schema_frame (Schema batch)),
                         E_Send (data_frame batch), E_WriterClose, E_PutRecv]
                      (w\<lparr>wire := [descriptor_frame, schema_frame (Schema batch),
                                   data_frame batch]\<rparr>))
               | r \<Rightarrow>
                   (Returns ('''', Some (Errorf ''failed to receive result'' (cause r))),
                    logged [E_DoPut c, E_Send descriptor_frame, E_NewRecordWriter (Schema batch),
                         E_Write batch, E_Send (schema_frame (Schema batch)),
                         E_Send (data_frame batch), E_WriterClose, E_PutRecv]
                      (w\<lparr>wire := [descriptor_frame, schema_frame (Schema batch),
                                   data_frame batch]\<rparr>))))))))"
  by (simp add: PutBatch_stream_def flight_DoPut_def stream_Send_def stream_Recv_def
      NewRecordWriter_def writer_Write_def writer_Close_def descriptor_frame_def
      emit_def logged_def Let_def cause_def await_deadline[OF dl] numeral_2_eq_2
      split: reply.splits)

lemma ListBatches_loop_all:
  assumes "deadline (ls_ctx s) = Some d" "map FlightInfo.FlightDescriptor (ls_pending s) = map Some ds"
  shows "ListBatches_loop s ids w =
     (Returns (ids @ map Cmd ds, None), logged (replicate (Suc (length ds)) E_InfoRecv) w)"
  using assms
proof (induction ds arbitrary: s ids w)
  case Nil
  then show ?case
    by (subst ListBatches_loop.simps)
       (simp add: info_Recv_def await_deadline emit_def logged_def Let_def split: reply.splits)
next
  case (Cons x xs)
  from Cons.prems obtain info rest where p: "ls_pending s = info # rest"
    "FlightInfo.FlightDescriptor info = Some x" "map FlightInfo.FlightDescriptor rest = map Some xs"
    by (cases "ls_pending s") auto
  have "ListBatches_loop s ids w =
        ListBatches_loop (s\<lparr>ls_pending := rest\<rparr>) (ids @ [Cmd x]) (emit E_InfoRecv w)"
    by (subst ListBatches_loop.simps) (simp add: info_Recv_def p Let_def)
  also have "\<dots> = (Returns ((ids @ [Cmd x]) @ map Cmd xs, None),
                   logged (replicate (Suc (length xs)) E_InfoRecv) (emit E_InfoRecv w))"
    using Cons.prems p by (intro Cons.IH) simp_all
  finally show ?case by (simp add: logged_def emit_def)
qed

lemma ListBatches_loop_nil:
  assumes "map FlightInfo.FlightDescriptor pre = map Some ds"
    "FlightInfo.FlightDescriptor info = None" "ls_pending s = pre @ info # post"
  shows "ListBatches_loop s ids w = (Panics, logged (replicate (Suc (length ds)) E_InfoRecv) w)"
  using assms
proof (induction ds arbitrary: pre s ids w)
  case Nil
  then show ?case
    by (subst ListBatches_loop.simps) (simp add: info_Recv_def emit_def logged_def Let_def)
next
  case (Cons x xs)
  from Cons.prems obtain i0 rest where p: "pre = i0 # rest"
    "FlightInfo.FlightDescriptor i0 = Some x" "map FlightInfo.FlightDescriptor rest = map Some xs"
    by (cases pre) auto
  have "ListBatches_loop s ids w =
        ListBatches_loop (s\<lparr>ls_pending := rest @ info # post\<rparr>) (ids @ [Cmd x]) (emit E_InfoRecv w)"
    by (subst ListBatches_loop.simps) (simp add: info_Recv_def p Cons.prems Let_def)
  also have "\<dots> = (Panics, logged (replicate (Suc (length xs)) E_InfoRecv) (emit E_InfoRecv w))"
    using Cons.prems p by (intro Cons.IH[of rest]) simp_all
  finally show ?case by (simp add: logged_def emit_def)
qed

lemma NewFlightClient_run:
  "NewFlightClient tr config w =
    (let target = (if Addr config = [] then ''localhost:8080'' else Addr config);
         al = (case Allocator config of None \<Rightarrow> GoAllocator | Some a \<Rightarrow> a);
         opts = [WithTransportCredentials_insecure, WithBlock, grpc_WithTimeout (5 * Second)]
     in case cause (dial_reply tr target) of
          Some e \<Rightarrow> (Returns (None, Some (Errorf (''failed to connect to Flight server at '' @ target)
                                            (Some e))),
                     logged [E_Dial target opts] w)
        | None \<Rightarrow>
           (case cause (newClient_reply tr target) of
              Some e \<Rightarrow> (Returns (None, Some (Errorf ''failed to create Flight client'' (Some e))),
                         logged [E_Dial target opts, E_NewClient target opts,
                              E_ConnClose (ClientConn target)] w)
            | None \<Rightarrow> (Returns (Some \<lparr>client = flight_Client target, addr = target,
                                       allocator = al, conn = ClientConn target\<rparr>, None),
                       logged [E_Dial target opts, E_NewClient target opts] w)))"
  by (simp add: NewFlightClient_def grpc_Dial_def flight_NewClientWithMiddleware_def
      conn_Close_def dial_await_def emit_def logged_def Let_def cause_def
      split: reply.splits option.splits)

lemma GetBatch_wrap:
  "GetBatch tr ctx now batchID w =
     (fst (GetBatch_stream tr (WithTimeout ctx now (30 * Second)) batchID
             (emit (E_WithTimeout (30 * Second)) w)),
      emit E_Cancel (snd (GetBatch_stream tr (WithTimeout ctx now (30 * Second)) batchID
             (emit (E_WithTimeout (30 * Second)) w))))"
proof -
  obtain d where dl: "deadline (WithTimeout ctx now (30 * Second)) = Some d"
    using deadline_WithTimeout by blast
  show ?thesis
    by (simp add: GetBatch_def Let_def GetBatch_stream_run[OF dl]
        split: option.splits list.splits)
qed

lemma PutBatch_wrap:
  "PutBatch tr ctx now batch w =
     (fst (PutBatch_stream tr (WithTimeout ctx now (30 * Second)) batch
             (emit (E_WithTimeout (30 * Second)) w)),
      emit E_Cancel (snd (PutBatch_stream tr (WithTimeout ctx now (30 * Second)) batch
             (emit (E_WithTimeout (30 * Second)) w))))"
proof -
  obtain d where dl: "deadline (WithTimeout ctx now (30 * Second)) = Some d"
    using deadline_WithTimeout by blast
  show ?thesis
    by (simp add: PutBatch_def Let_def PutBatch_stream_run[OF dl]
        split: option.splits reply.splits)
qed

lemma GetBatch_result:
  "fst (GetBatch tr ctx now batchID w) =
    (case cause (doGet_reply tr batchID) of
       Some e \<Rightarrow> Returns (None, Some (Errorf ''failed to start DoGet stream'' (Some e)))
     | None \<Rightarrow>
      (case cause (get_schema tr batchID) of
         Some e \<Rightarrow> Returns (None, Some (Errorf ''failed to create record reader'' (Some e)))
       | None \<Rightarrow>
        (case get_batches tr batchID of
           [] \<Rightarrow>
            (case cause (get_end tr batchID) of
               Some e \<Rightarrow> Returns (None, Some (Errorf ''error reading batch'' (Some e)))
             | None \<Rightarrow> Returns (None, Some (Errorf ''no batch received'' None)))
         | b # bs \<Rightarrow> Returns (Some (fresh w), None))))"
proof -
  obtain d where dl: "deadline (WithTimeout ctx now (30 * Second)) = Some d"
    using deadline_WithTimeout by blast
  show ?thesis
    by (simp add: GetBatch_wrap GetBatch_stream_run[OF dl] emit_def
        split: option.splits list.splits)
qed

section \<open>Properties of GetBatch\<close>

text \<open>
  C1. For every successful \<^verbatim>\<open>GetBatch\<close> call the client retains the first decoded batch
  before the record reader is released: among the events of the call, the \<^verbatim>\<open>Retain\<close> of
  the returned record comes before the first \<^verbatim>\<open>Release\<close> of the reader. The record
  handed to the caller is valid in the world the call leaves, after the reader has been
  torn down: its reference count is at least one and its data is still in the store.
\<close>

theorem GetBatch_retains_before_release:
  assumes "GetBatch tr ctx now batchID w = (Returns (r, None), w')"
  shows "\<exists>a. r = Some a \<and> valid_record w' a \<and>
             happens_before (E_Retain a) E_ReaderRelease (events_since w w')"
proof -
  obtain d where dl: "deadline (WithTimeout ctx now (30 * Second)) = Some d"
    using deadline_WithTimeout by blast
  show ?thesis
    using assms
    by (auto simp: GetBatch_wrap GetBatch_stream_run[OF dl] valid_record_def events_since_def
        logged_def emit_def split: option.splits list.splits)
qed

theorem GetBatch_retains_before_release_witness:
  "GetBatch service_ok background 0 ''id-1'' world0 =
     (Returns (Some 0, None), snd (GetBatch service_ok background 0 ''id-1'' world0)) \<and>
   (\<exists>a. Some (0::nat) = Some a \<and>
        valid_record (snd (GetBatch service_ok background 0 ''id-1'' world0)) a \<and>
        happens_before (E_Retain a) E_ReaderRelease
          (events_since world0 (snd (GetBatch service_ok background 0 ''id-1'' world0))))"
proof -
  have run: "GetBatch service_ok background 0 ''id-1'' world0 =
     (Returns (Some 0, None), snd (GetBatch service_ok background 0 ''id-1'' world0))"
    by (simp add: prod_eq_iff GetBatch_result service_ok_def cause_def world0_def)
  from run GetBatch_retains_before_release[OF run] show ?thesis by (rule conjI)
qed

text \<open>
  C4. Every \<^verbatim>\<open>GetBatch\<close> call submits exactly one ticket, whose bytes are the identifier
  the caller supplied. On success the returned record holds the first batch decoded from
  the stream, and the reader was advanced exactly once: no further batch is read, drained
  or validated before the call returns.
\<close>

theorem GetBatch_ticket_and_first_batch:
  assumes "GetBatch tr ctx now batchID w = (out, w')"
  shows "tickets (events_since w w') = [Ticket batchID] \<and>
         count_list (events_since w w') E_Next \<le> 1 \<and>
         (\<forall>r. out = Returns (r, None) \<longrightarrow>
            (\<exists>b bs. get_batches tr batchID = b # bs \<and> r = Some (fresh w) \<and>
                    store w' (fresh w) = Some b \<and>
                    count_list (events_since w w') E_Next = 1))"
proof -
  obtain d where dl: "deadline (WithTimeout ctx now (30 * Second)) = Some d"
    using deadline_WithTimeout by blast
  show ?thesis
    using assms
    by (auto simp: GetBatch_wrap GetBatch_stream_run[OF dl] events_since_def
        logged_def emit_def split: option.splits list.splits)
qed

theorem GetBatch_ticket_and_first_batch_witness:
  "tickets (events_since world0 (snd (GetBatch service_ok background 0 ''id-1'' world0)))
     = [Ticket ''id-1''] \<and>
   fst (GetBatch service_ok background 0 ''id-1'' world0) = Returns (Some 0, None) \<and>
   get_batches service_ok ''id-1'' = [batch0, batch1] \<and>
   store (snd (GetBatch service_ok background 0 ''id-1'' world0)) 0 = Some batch0 \<and>
   count_list (events_since world0 (snd (GetBatch service_ok background 0 ''id-1'' world0))) E_Next = 1"
proof -
  have fr: "fst (GetBatch service_ok background 0 ''id-1'' world0) = Returns (Some 0, None)"
    by (simp add: GetBatch_result service_ok_def cause_def world0_def)
  then have run: "GetBatch service_ok background 0 ''id-1'' world0 =
     (Returns (Some 0, None), snd (GetBatch service_ok background 0 ''id-1'' world0))"
    by (simp add: prod_eq_iff)
  have b: "get_batches service_ok ''id-1'' = [batch0, batch1]"
    by (simp add: service_ok_def)
  have f: "fresh world0 = 0" by (simp add: world0_def)
  from GetBatch_ticket_and_first_batch[OF run] fr b f show ?thesis by auto
qed

text \<open>
  C5. When the stream of \<^verbatim>\<open>GetBatch\<close> opens, declares its schema and ends gracefully
  without a batch, the call returns the plain error "no batch received" and no record.
  When a transport or decode error occurs, the call returns an error that wraps that
  cause and differs from the empty-result error both in what it unwraps to and in its
  message. A call that returns an error never returns a record.
\<close>

theorem GetBatch_failures:
  assumes "GetBatch tr ctx now batchID w = (out, w')"
  shows "(get_steps tr batchID = [None, None, None] \<longrightarrow>
            out = Returns (None, Some (Errorf ''no batch received'' None))) \<and>
         (\<forall>e. first_cause (get_steps tr batchID) = Some e \<longrightarrow>
            (\<exists>m. out = Returns (None, Some (Errorf m (Some e))) \<and>
                 Unwrap (Errorf m (Some e)) \<noteq> Unwrap (Errorf ''no batch received'' None) \<and>
                 Error (Errorf m (Some e)) \<noteq> Error (Errorf ''no batch received'' None))) \<and>
         (\<forall>r e. out = Returns (r, Some e) \<longrightarrow> r = None)"
proof -
  have "out = fst (GetBatch tr ctx now batchID w)" using assms by simp
  then show ?thesis
    by (auto simp: GetBatch_result get_steps_def split: option.splits list.splits if_splits)
qed

theorem GetBatch_failures_witness:
  "get_steps service_ok ''missing'' = [None, None, None] \<and>
   fst (GetBatch service_ok background 0 ''missing'' world0) =
     Returns (None, Some (Errorf ''no batch received'' None)) \<and>
   first_cause (get_steps (service_ok\<lparr>get_end := (\<lambda>t. Fail (Status ''broken''))\<rparr>) ''missing'')
     = Some (Status ''broken'') \<and>
   fst (GetBatch (service_ok\<lparr>get_end := (\<lambda>t. Fail (Status ''broken''))\<rparr>) background 0 ''missing'' world0) =
     Returns (None, Some (Errorf ''error reading batch'' (Some (Status ''broken''))))"
proof -
  let ?tr = "service_ok\<lparr>get_end := (\<lambda>t. Fail (Status ''broken''))\<rparr>"
  have s1: "get_steps service_ok ''missing'' = [None, None, None]"
    by (simp add: get_steps_def service_ok_def cause_def)
  have s2: "first_cause (get_steps ?tr ''missing'') = Some (Status ''broken'')"
    by (simp add: get_steps_def service_ok_def cause_def)
  have r1: "GetBatch service_ok background 0 ''missing'' world0 =
      (fst (GetBatch service_ok background 0 ''missing'' world0),
       snd (GetBatch service_ok background 0 ''missing'' world0))" by simp
  have r2: "GetBatch ?tr background 0 ''missing'' world0 =
      (fst (GetBatch ?tr background 0 ''missing'' world0),
       snd (GetBatch ?tr background 0 ''missing'' world0))" by simp
  have e2: "fst (GetBatch ?tr background 0 ''missing'' world0) =
     Returns (None, Some (Errorf ''error reading batch'' (Some (Status ''broken''))))"
    by (simp add: GetBatch_result service_ok_def cause_def)
  from GetBatch_failures[OF r1] s1 GetBatch_failures[OF r2] s2 e2 show ?thesis by blast
qed

section \<open>Properties of PutBatch\<close>

lemma PutBatch_result:
  "fst (PutBatch tr ctx now batch w) =
    (case cause (doPut_reply tr) of
       Some e \<Rightarrow> Returns ('''', Some (Errorf ''failed to start DoPut stream'' (Some e)))
     | None \<Rightarrow>
      (case cause (send_reply tr 0) of
         Some e \<Rightarrow> Returns ('''', Some (Errorf ''failed to send descriptor'' (Some e)))
       | None \<Rightarrow>
        (case first_cause [cause (send_reply tr 1), cause (send_reply tr 2)] of
           Some e \<Rightarrow> Returns ('''', Some (Errorf ''failed to write batch to stream'' (Some e)))
         | None \<Rightarrow>
          (case cause (writerClose_reply tr) of
             Some e \<Rightarrow> Returns ('''', Some (Errorf ''failed to close writer'' (Some e)))
           | None \<Rightarrow>
            (case putRecv_reply tr of
               Reply result \<Rightarrow> Returns (AppMetadata result, None)
             | r \<Rightarrow> Returns ('''', Some (Errorf ''failed to receive result'' (cause r))))))))"
proof -
  obtain d where dl: "deadline (WithTimeout ctx now (30 * Second)) = Some d"
    using deadline_WithTimeout by blast
  show ?thesis
    by (simp add: PutBatch_wrap PutBatch_stream_run[OF dl]
        split: option.splits reply.splits)
qed

text \<open>
  The receive of \<^verbatim>\<open>PutBatch\<close>. The call receives at most once. When the stream opened,
  the three frames were written and the record writer was closed, it receives exactly
  once, after \<^verbatim>\<open>writer.Close()\<close>; the identifier it returns is the application
  metadata of the acknowledgement received, and a receive that fails, or that the
  deadline ends, yields the error "failed to receive result" and the empty identifier.
\<close>

theorem PutBatch_acknowledgement:
  assumes "PutBatch tr ctx now batch w = (out, w')"
  shows "count_list (events_since w w') E_PutRecv \<le> 1 \<and>
         (first_cause (put_steps_before_ack tr) = None \<longrightarrow>
            count_list (events_since w w') E_PutRecv = 1 \<and>
            happens_before E_WriterClose E_PutRecv (events_since w w') \<and>
            (case putRecv_reply tr of
               Reply result \<Rightarrow> out = Returns (AppMetadata result, None)
             | Fail e \<Rightarrow> out = Returns ('''', Some (Errorf ''failed to receive result'' (Some e)))
             | Silent \<Rightarrow>
                 out = Returns ('''', Some (Errorf ''failed to receive result'' (Some DeadlineExceeded)))))"
proof -
  obtain d where dl: "deadline (WithTimeout ctx now (30 * Second)) = Some d"
    using deadline_WithTimeout by blast
  show ?thesis
    using assms
    by (auto simp: PutBatch_wrap PutBatch_stream_run[OF dl] events_since_def put_steps_before_ack_def
        logged_def emit_def cause_def split: option.splits reply.splits)
qed

theorem PutBatch_acknowledgement_witness:
  "first_cause (put_steps_before_ack service_ok) = None \<and>
   putRecv_reply service_ok = Reply (PutResult ''id-1'') \<and>
   fst (PutBatch service_ok background 0 batch0 world0) = Returns (''id-1'', None) \<and>
   count_list (events_since world0 (snd (PutBatch service_ok background 0 batch0 world0)))
     E_PutRecv = 1 \<and>
   happens_before E_WriterClose E_PutRecv
     (events_since world0 (snd (PutBatch service_ok background 0 batch0 world0)))"
proof -
  have r: "PutBatch service_ok background 0 batch0 world0 =
     (fst (PutBatch service_ok background 0 batch0 world0),
      snd (PutBatch service_ok background 0 batch0 world0))" by simp
  have s: "first_cause (put_steps_before_ack service_ok) = None"
    by (simp add: put_steps_before_ack_def service_ok_def cause_def)
  have a: "putRecv_reply service_ok = Reply (PutResult ''id-1'')"
    by (simp add: service_ok_def)
  from PutBatch_acknowledgement[OF r] s a show ?thesis by simp
qed

text \<open>
  C2. The claim has the one receive of \<^verbatim>\<open>PutBatch\<close> come after the write side of the
  DoPut stream is closed. The code closes the record writer, under the comment "Close
  the writer to signal the end of the stream", and never closes the stream. On an upload
  of \<open>batch0\<close> to a service that answers every request the call succeeds with the
  identifier "id-1"; its events are the ten below, the receive directly after
  \<^verbatim>\<open>writer.Close()\<close>; no \<^verbatim>\<open>CloseSend\<close> is among them, so the receive happens with the
  write side still open.
\<close>

theorem PutBatch_receives_with_write_side_open:
  "fst (PutBatch service_ok background 0 batch0 world0) = Returns (''id-1'', None) \<and>
   events_since world0 (snd (PutBatch service_ok background 0 batch0 world0)) =
     [E_WithTimeout (30 * Second), E_DoPut (WithTimeout background 0 (30 * Second)),
      E_Send descriptor_frame, E_NewRecordWriter (Schema batch0), E_Write batch0,
      E_Send (schema_frame (Schema batch0)), E_Send (data_frame batch0),
      E_WriterClose, E_PutRecv, E_Cancel] \<and>
   E_CloseSend \<notin> set (events_since world0 (snd (PutBatch service_ok background 0 batch0 world0))) \<and>
   \<not> happens_before E_CloseSend E_PutRecv
       (events_since world0 (snd (PutBatch service_ok background 0 batch0 world0)))"
proof -
  have dl: "deadline (WithTimeout background 0 (30 * Second)) = Some (30 * Second)"
    by (simp add: WithTimeout_def background_def)
  have r: "fst (PutBatch service_ok background 0 batch0 world0) = Returns (''id-1'', None)"
    by (simp add: PutBatch_result service_ok_def cause_def)
  have e: "events_since world0 (snd (PutBatch service_ok background 0 batch0 world0)) =
     [E_WithTimeout (30 * Second), E_DoPut (WithTimeout background 0 (30 * Second)),
      E_Send descriptor_frame, E_NewRecordWriter (Schema batch0), E_Write batch0,
      E_Send (schema_frame (Schema batch0)), E_Send (data_frame batch0),
      E_WriterClose, E_PutRecv, E_Cancel]"
    by (simp add: PutBatch_wrap PutBatch_stream_run[OF dl] service_ok_def cause_def
        events_since_def logged_def emit_def world0_def)
  show ?thesis unfolding e using r by simp
qed

text \<open>
  C3. The frames \<^verbatim>\<open>PutBatch\<close> writes on its new stream are, in this order, the descriptor
  frame (command type, command bytes "put", no payload), the schema frame carrying the
  schema of the uploaded batch, and the data frame of the batch; a call that fails early
  writes a prefix of them. Once the stream is open the first frame written is the
  descriptor frame, and a successful call has put all three on the wire.
\<close>

theorem PutBatch_frames:
  assumes "PutBatch tr ctx now batch w = (out, w')"
  shows "prefix (sent_frames (events_since w w'))
           [descriptor_frame, schema_frame (Schema batch), data_frame batch] \<and>
         (cause (doPut_reply tr) = None \<longrightarrow>
            take 1 (sent_frames (events_since w w')) = [descriptor_frame]) \<and>
         (\<forall>i. out = Returns (i, None) \<longrightarrow>
            sent_frames (events_since w w') =
              [descriptor_frame, schema_frame (Schema batch), data_frame batch] \<and>
            wire w' = [descriptor_frame, schema_frame (Schema batch), data_frame batch])"
proof -
  obtain d where dl: "deadline (WithTimeout ctx now (30 * Second)) = Some d"
    using deadline_WithTimeout by blast
  show ?thesis
    using assms
    by (auto simp: PutBatch_wrap PutBatch_stream_run[OF dl] events_since_def
        logged_def emit_def split: option.splits reply.splits)
qed

theorem PutBatch_frames_witness:
  "cause (doPut_reply service_ok) = None \<and>
   fst (PutBatch service_ok background 0 batch0 world0) = Returns (''id-1'', None) \<and>
   sent_frames (events_since world0 (snd (PutBatch service_ok background 0 batch0 world0))) =
     [descriptor_frame, schema_frame (Schema batch0), data_frame batch0] \<and>
   wire (snd (PutBatch service_ok background 0 batch0 world0)) =
     [descriptor_frame, schema_frame (Schema batch0), data_frame batch0]"
proof -
  have f: "fst (PutBatch service_ok background 0 batch0 world0) = Returns (''id-1'', None)"
    by (simp add: PutBatch_result service_ok_def cause_def)
  then have r: "PutBatch service_ok background 0 batch0 world0 =
     (Returns (''id-1'', None), snd (PutBatch service_ok background 0 batch0 world0))"
    by (simp add: prod_eq_iff)
  have c: "cause (doPut_reply service_ok) = None"
    by (simp add: service_ok_def cause_def)
  from PutBatch_frames[OF r] f c show ?thesis by simp
qed

text \<open>
  C7. Each failure of \<^verbatim>\<open>PutBatch\<close> returns the empty identifier and an error that wraps
  the underlying cause under the message of the phase that failed: opening the stream,
  sending the descriptor, writing the batch, closing the writer, receiving the
  acknowledgement. The five messages differ, and no operation is performed twice within
  a call: its events are pairwise distinct.
\<close>

theorem PutBatch_failure_phases:
  assumes "PutBatch tr ctx now batch w = (out, w')"
  shows "(\<forall>e. cause (doPut_reply tr) = Some e \<longrightarrow>
            out = Returns ('''', Some (Errorf ''failed to start DoPut stream'' (Some e)))) \<and>
         (\<forall>e. cause (doPut_reply tr) = None \<and> cause (send_reply tr 0) = Some e \<longrightarrow>
            out = Returns ('''', Some (Errorf ''failed to send descriptor'' (Some e)))) \<and>
         (\<forall>e. cause (doPut_reply tr) = None \<and> cause (send_reply tr 0) = None \<and>
              first_cause [cause (send_reply tr 1), cause (send_reply tr 2)] = Some e \<longrightarrow>
            out = Returns ('''', Some (Errorf ''failed to write batch to stream'' (Some e)))) \<and>
         (\<forall>e. cause (doPut_reply tr) = None \<and> cause (send_reply tr 0) = None \<and>
              first_cause [cause (send_reply tr 1), cause (send_reply tr 2)] = None \<and>
              cause (writerClose_reply tr) = Some e \<longrightarrow>
            out = Returns ('''', Some (Errorf ''failed to close writer'' (Some e)))) \<and>
         (\<forall>e. first_cause (put_steps_before_ack tr) = None \<and>
              cause (putRecv_reply tr) = Some e \<longrightarrow>
            out = Returns ('''', Some (Errorf ''failed to receive result'' (Some e)))) \<and>
         distinct [''failed to start DoPut stream'', ''failed to send descriptor'',
                   ''failed to write batch to stream'', ''failed to close writer'',
                   ''failed to receive result''] \<and>
         distinct (events_since w w')"
proof -
  obtain d where dl: "deadline (WithTimeout ctx now (30 * Second)) = Some d"
    using deadline_WithTimeout by blast
  have out: "out = fst (PutBatch tr ctx now batch w)" using assms by simp
  have 1: "distinct (events_since w w')"
    using assms
    by (auto simp: PutBatch_wrap PutBatch_stream_run[OF dl] events_since_def
        logged_def emit_def descriptor_frame_def schema_frame_def data_frame_def
        split: option.splits reply.splits)
  have 2: "distinct [''failed to start DoPut stream'', ''failed to send descriptor'',
                   ''failed to write batch to stream'', ''failed to close writer'',
                   ''failed to receive result'']" by simp
  have 3: "\<forall>e. first_cause (put_steps_before_ack tr) = None \<and>
              cause (putRecv_reply tr) = Some e \<longrightarrow>
            out = Returns ('''', Some (Errorf ''failed to receive result'' (Some e)))"
    by (auto simp: out PutBatch_result put_steps_before_ack_def cause_def
        split: option.splits reply.splits)
  have 4: "\<forall>e. cause (doPut_reply tr) = None \<and> cause (send_reply tr 0) = None \<and>
              first_cause [cause (send_reply tr 1), cause (send_reply tr 2)] = None \<and>
              cause (writerClose_reply tr) = Some e \<longrightarrow>
            out = Returns ('''', Some (Errorf ''failed to close writer'' (Some e)))"
    by (simp add: out PutBatch_result)
  have 5: "\<forall>e. cause (doPut_reply tr) = None \<and> cause (send_reply tr 0) = None \<and>
              first_cause [cause (send_reply tr 1), cause (send_reply tr 2)] = Some e \<longrightarrow>
            out = Returns ('''', Some (Errorf ''failed to write batch to stream'' (Some e)))"
    by (simp add: out PutBatch_result)
  have 6: "\<forall>e. cause (doPut_reply tr) = None \<and> cause (send_reply tr 0) = Some e \<longrightarrow>
            out = Returns ('''', Some (Errorf ''failed to send descriptor'' (Some e)))"
    by (simp add: out PutBatch_result)
  have 7: "\<forall>e. cause (doPut_reply tr) = Some e \<longrightarrow>
            out = Returns ('''', Some (Errorf ''failed to start DoPut stream'' (Some e)))"
    by (simp add: out PutBatch_result)
  from 1 2 3 4 5 6 7 show ?thesis by blast
qed

theorem PutBatch_failure_phases_witness:
  "fst (PutBatch (service_ok\<lparr>doPut_reply := Fail (Status ''unavailable'')\<rparr>) background 0 batch0 world0)
     = Returns ('''', Some (Errorf ''failed to start DoPut stream'' (Some (Status ''unavailable'')))) \<and>
   fst (PutBatch (service_ok\<lparr>send_reply := (\<lambda>n. if n = 0 then Fail EOF else Reply ())\<rparr>)
          background 0 batch0 world0)
     = Returns ('''', Some (Errorf ''failed to send descriptor'' (Some EOF))) \<and>
   fst (PutBatch (service_ok\<lparr>send_reply := (\<lambda>n. if n = 2 then Fail EOF else Reply ())\<rparr>)
          background 0 batch0 world0)
     = Returns ('''', Some (Errorf ''failed to write batch to stream'' (Some EOF))) \<and>
   fst (PutBatch (service_ok\<lparr>writerClose_reply := Fail Canceled\<rparr>) background 0 batch0 world0)
     = Returns ('''', Some (Errorf ''failed to close writer'' (Some Canceled))) \<and>
   fst (PutBatch service_put_stalled background 0 batch0 world0)
     = Returns ('''', Some (Errorf ''failed to receive result'' (Some DeadlineExceeded))) \<and>
   distinct (events_since world0 (snd (PutBatch service_put_stalled background 0 batch0 world0)))"
proof -
  let ?t1 = "service_ok\<lparr>doPut_reply := Fail (Status ''unavailable'')\<rparr>"
  let ?t2 = "service_ok\<lparr>send_reply := (\<lambda>n. if n = 0 then Fail EOF else Reply ())\<rparr>"
  let ?t3 = "service_ok\<lparr>send_reply := (\<lambda>n. if n = 2 then Fail EOF else Reply ())\<rparr>"
  let ?t4 = "service_ok\<lparr>writerClose_reply := Fail Canceled\<rparr>"
  have r1: "PutBatch ?t1 background 0 batch0 world0 =
     (fst (PutBatch ?t1 background 0 batch0 world0), snd (PutBatch ?t1 background 0 batch0 world0))"
    by simp
  have r2: "PutBatch ?t2 background 0 batch0 world0 =
     (fst (PutBatch ?t2 background 0 batch0 world0), snd (PutBatch ?t2 background 0 batch0 world0))"
    by simp
  have r3: "PutBatch ?t3 background 0 batch0 world0 =
     (fst (PutBatch ?t3 background 0 batch0 world0), snd (PutBatch ?t3 background 0 batch0 world0))"
    by simp
  have r4: "PutBatch ?t4 background 0 batch0 world0 =
     (fst (PutBatch ?t4 background 0 batch0 world0), snd (PutBatch ?t4 background 0 batch0 world0))"
    by simp
  have r5: "PutBatch service_put_stalled background 0 batch0 world0 =
     (fst (PutBatch service_put_stalled background 0 batch0 world0),
      snd (PutBatch service_put_stalled background 0 batch0 world0))"
    by simp
  have c1: "cause (doPut_reply ?t1) = Some (Status ''unavailable'')"
    by (simp add: service_ok_def cause_def)
  have c2: "cause (doPut_reply ?t2) = None \<and> cause (send_reply ?t2 0) = Some EOF"
    by (simp add: service_ok_def cause_def)
  have c3: "cause (doPut_reply ?t3) = None \<and> cause (send_reply ?t3 0) = None \<and>
            first_cause [cause (send_reply ?t3 1), cause (send_reply ?t3 2)] = Some EOF"
    by (simp add: service_ok_def cause_def)
  have c4: "cause (doPut_reply ?t4) = None \<and> cause (send_reply ?t4 0) = None \<and>
            first_cause [cause (send_reply ?t4 1), cause (send_reply ?t4 2)] = None \<and>
            cause (writerClose_reply ?t4) = Some Canceled"
    by (simp add: service_ok_def cause_def)
  have c5: "first_cause (put_steps_before_ack service_put_stalled) = None \<and>
            cause (putRecv_reply service_put_stalled) = Some DeadlineExceeded"
    by (simp add: put_steps_before_ack_def service_put_stalled_def service_ok_def cause_def)
  from PutBatch_failure_phases[OF r1] c1
  have 1: "fst (PutBatch ?t1 background 0 batch0 world0)
     = Returns ('''', Some (Errorf ''failed to start DoPut stream'' (Some (Status ''unavailable''))))"
    by blast
  from PutBatch_failure_phases[OF r2] c2
  have 2: "fst (PutBatch ?t2 background 0 batch0 world0)
     = Returns ('''', Some (Errorf ''failed to send descriptor'' (Some EOF)))"
    by blast
  from PutBatch_failure_phases[OF r3] c3
  have 3: "fst (PutBatch ?t3 background 0 batch0 world0)
     = Returns ('''', Some (Errorf ''failed to write batch to stream'' (Some EOF)))"
    by blast
  from PutBatch_failure_phases[OF r4] c4
  have 4: "fst (PutBatch ?t4 background 0 batch0 world0)
     = Returns ('''', Some (Errorf ''failed to close writer'' (Some Canceled)))"
    by blast
  from PutBatch_failure_phases[OF r5] c5
  have 5: "fst (PutBatch service_put_stalled background 0 batch0 world0)
     = Returns ('''', Some (Errorf ''failed to receive result'' (Some DeadlineExceeded))) \<and>
     distinct (events_since world0 (snd (PutBatch service_put_stalled background 0 batch0 world0)))"
    by blast
  from 1 2 3 4 5 show ?thesis by blast
qed

section \<open>Properties of ListBatches\<close>

lemma all_Some_map:
  "(\<forall>x\<in>set xs. f x \<noteq> None) \<Longrightarrow> \<exists>ys. map f xs = map Some ys"
proof (induction xs)
  case Nil
  then show ?case by simp
next
  case (Cons x xs)
  then obtain ys y where "map f xs = map Some ys" "f x = Some y" by auto
  then have "map f (x # xs) = map Some (y # ys)" by simp
  then show ?case by blast
qed

lemma first_None_split:
  assumes "\<exists>x\<in>set xs. f x = None"
  shows "\<exists>pre x post ys. xs = pre @ x # post \<and> f x = None \<and> map f pre = map Some ys"
proof -
  from split_list_first_prop[OF assms] obtain pre x post where
    s: "xs = pre @ x # post" "f x = None" "\<forall>y\<in>set pre. f y \<noteq> None" by blast
  from all_Some_map[OF s(3)] obtain ys where "map f pre = map Some ys" by blast
  with s show ?thesis by blast
qed

lemma count_list_replicate:
  "count_list (replicate n x) y = (if x = y then n else 0)"
  by (induction n) auto

lemma ListBatches_loop_outcome:
  assumes "deadline (ls_ctx s) = Some d"
  shows "fst (ListBatches_loop s ids w) \<noteq> Hangs \<and>
         (fst (ListBatches_loop s ids w) = Panics) =
           (\<exists>info\<in>set (ls_pending s). FlightInfo.FlightDescriptor info = None)"
proof (cases "\<exists>info\<in>set (ls_pending s). FlightInfo.FlightDescriptor info = None")
  case True
  from first_None_split[OF True] obtain pre x post ys where
    "ls_pending s = pre @ x # post" "FlightInfo.FlightDescriptor x = None"
    "map FlightInfo.FlightDescriptor pre = map Some ys" by blast
  from ListBatches_loop_nil[OF this(3) this(2) this(1)] True show ?thesis by simp
next
  case False
  then have "\<forall>info\<in>set (ls_pending s). FlightInfo.FlightDescriptor info \<noteq> None" by simp
  from all_Some_map[OF this] obtain ds where
    "map FlightInfo.FlightDescriptor (ls_pending s) = map Some ds" by blast
  from ListBatches_loop_all[OF assms this] False show ?thesis by simp
qed

lemma ListBatches_wrap:
  "ListBatches tr ctx now w =
     (fst (ListBatches_stream tr (WithTimeout ctx now (30 * Second))
             (emit (E_WithTimeout (30 * Second)) w)),
      emit E_Cancel (snd (ListBatches_stream tr (WithTimeout ctx now (30 * Second))
             (emit (E_WithTimeout (30 * Second)) w))))"
proof -
  obtain d where dl: "deadline (WithTimeout ctx now (30 * Second)) = Some d"
    using deadline_WithTimeout by blast
  let ?r = "ListBatches_stream tr (WithTimeout ctx now (30 * Second))
             (emit (E_WithTimeout (30 * Second)) w)"
  have "fst ?r \<noteq> Hangs"
    using ListBatches_loop_outcome[of "\<lparr>ls_ctx = WithTimeout ctx now (30 * Second),
        ls_pending = list_infos tr, ls_end = list_end tr\<rparr>" d]
    by (simp add: ListBatches_stream_def flight_ListFlights_def Let_def await_deadline[OF dl] dl
        split: reply.splits)
  then show ?thesis
    by (cases ?r) (simp add: ListBatches_def Let_def split: outcome.splits)
qed

lemma ListBatches_stream_open:
  assumes "deadline c = Some d" "cause (listFlights_reply tr) = None"
  shows "ListBatches_stream tr c w =
           ListBatches_loop \<lparr>ls_ctx = c, ls_pending = list_infos tr, ls_end = list_end tr\<rparr> []
             (emit (E_ListFlights c (Criteria [])) w)"
  using assms(2)
  by (simp add: ListBatches_stream_def flight_ListFlights_def Let_def await_deadline[OF assms(1)]
      cause_def split: reply.splits)

lemma ListBatches_stream_refused:
  assumes "deadline c = Some d" "cause (listFlights_reply tr) = Some e"
  shows "ListBatches_stream tr c w =
           (Returns ([], Some (Errorf ''failed to start ListFlights stream'' (Some e))),
            emit (E_ListFlights c (Criteria [])) w)"
  using assms(2)
  by (simp add: ListBatches_stream_def flight_ListFlights_def Let_def await_deadline[OF assms(1)]
      cause_def split: reply.splits)

lemma ListBatches_all:
  assumes "cause (listFlights_reply tr) = None"
    "map FlightInfo.FlightDescriptor (list_infos tr) = map Some ds"
  shows "ListBatches tr ctx now w =
     (Returns (map Cmd ds, None),
      logged ([E_WithTimeout (30 * Second), E_ListFlights (WithTimeout ctx now (30 * Second)) (Criteria [])]
               @ replicate (Suc (length ds)) E_InfoRecv @ [E_Cancel]) w)"
proof -
  obtain d where dl: "deadline (WithTimeout ctx now (30 * Second)) = Some d"
    using deadline_WithTimeout by blast
  let ?c = "WithTimeout ctx now (30 * Second)"
  let ?s = "\<lparr>ls_ctx = ?c, ls_pending = list_infos tr, ls_end = list_end tr\<rparr>"
  have "ListBatches_loop ?s [] (emit (E_ListFlights ?c (Criteria [])) (emit (E_WithTimeout (30 * Second)) w))
      = (Returns ([] @ map Cmd ds, None),
         logged (replicate (Suc (length ds)) E_InfoRecv)
           (emit (E_ListFlights ?c (Criteria [])) (emit (E_WithTimeout (30 * Second)) w)))"
    by (rule ListBatches_loop_all[where d = d]) (simp_all add: dl assms(2))
  then show ?thesis
    by (simp add: ListBatches_wrap ListBatches_stream_open[OF dl assms(1)] logged_def emit_def)
qed

text \<open>
  C6, as stated, fails on a stream with a record that has no descriptor: on the open
  stream of \<open>info0\<close>, \<open>info_nil\<close>, \<open>info1\<close> the call does not return the identifiers
  collected so far, it panics.
\<close>

theorem ListBatches_nil_descriptor_counterexample:
  "cause (listFlights_reply service_list_nil) = None \<and>
   list_infos service_list_nil = [info0, info_nil, info1] \<and>
   fst (ListBatches service_list_nil background 0 world0) = Panics"
proof -
  obtain d where dl: "deadline (WithTimeout background 0 (30 * Second)) = Some d"
    using deadline_WithTimeout by blast
  have c: "cause (listFlights_reply service_list_nil) = None"
    by (simp add: service_list_nil_def service_ok_def cause_def)
  have l: "list_infos service_list_nil = [info0, info_nil, info1]"
    by (simp add: service_list_nil_def)
  have "fst (ListBatches service_list_nil background 0 world0) = Panics"
    using ListBatches_loop_outcome[of "\<lparr>ls_ctx = WithTimeout background 0 (30 * Second),
        ls_pending = list_infos service_list_nil, ls_end = list_end service_list_nil\<rparr>" d]
    by (simp add: ListBatches_wrap ListBatches_stream_open[OF dl c] dl l info_nil_def)
  with c l show ?thesis by simp
qed

text \<open>
  C6, amended. Once the ListFlights stream is open and every record received carries a
  descriptor, \<^verbatim>\<open>ListBatches\<close> returns one identifier per record received, the command
  bytes of its descriptor, in the order received, with a \<^verbatim>\<open>nil\<close> error. It receives once
  more than there are records: it stops at the first receive that fails, and the result
  is the same whatever ends the stream, its graceful end, a failure or the deadline.
\<close>

theorem ListBatches_collects_until_failure:
  assumes "ListBatches tr ctx now w = (out, w')"
    and "cause (listFlights_reply tr) = None"
    and "map FlightInfo.FlightDescriptor (list_infos tr) = map Some ds"
  shows "out = Returns (map Cmd ds, None) \<and>
         count_list (events_since w w') E_InfoRecv = Suc (length ds)"
  using assms(1) unfolding ListBatches_all[OF assms(2,3)]
  by (auto simp: events_since_def logged_def count_list_replicate)

theorem ListBatches_collects_until_failure_witness:
  "cause (listFlights_reply (service_ok\<lparr>list_end := Fail (Status ''reset'')\<rparr>)) = None \<and>
   map FlightInfo.FlightDescriptor (list_infos (service_ok\<lparr>list_end := Fail (Status ''reset'')\<rparr>))
     = map Some [\<lparr>Type = DescriptorCMD, Cmd = ''id-1''\<rparr>, \<lparr>Type = DescriptorCMD, Cmd = ''id-2''\<rparr>] \<and>
   fst (ListBatches (service_ok\<lparr>list_end := Fail (Status ''reset'')\<rparr>) background 0 world0)
     = Returns ([''id-1'', ''id-2''], None) \<and>
   count_list (events_since world0
       (snd (ListBatches (service_ok\<lparr>list_end := Fail (Status ''reset'')\<rparr>) background 0 world0)))
     E_InfoRecv = 3"
proof -
  let ?tr = "service_ok\<lparr>list_end := Fail (Status ''reset'')\<rparr>"
  have r: "ListBatches ?tr background 0 world0 =
     (fst (ListBatches ?tr background 0 world0), snd (ListBatches ?tr background 0 world0))"
    by simp
  have c: "cause (listFlights_reply ?tr) = None" by (simp add: service_ok_def cause_def)
  have m: "map FlightInfo.FlightDescriptor (list_infos ?tr)
     = map Some [\<lparr>Type = DescriptorCMD, Cmd = ''id-1''\<rparr>, \<lparr>Type = DescriptorCMD, Cmd = ''id-2''\<rparr>]"
    by (simp add: service_ok_def info0_def info1_def)
  from ListBatches_collects_until_failure[OF r c m] c m show ?thesis by simp
qed

text \<open>
  C10. \<^verbatim>\<open>ListBatches\<close> reads the command of each received record's descriptor without a
  \<^verbatim>\<open>nil\<close> guard: the call panics exactly when its stream opened and one of the records on
  it has no descriptor. It is free of panics only when every record received carries a
  descriptor, and for a stream with a record without one it panics instead of returning
  an error.
\<close>

theorem ListBatches_panics_iff:
  "(fst (ListBatches tr ctx now w) = Panics) =
     (cause (listFlights_reply tr) = None \<and>
      (\<exists>info\<in>set (list_infos tr). FlightInfo.FlightDescriptor info = None))"
proof -
  obtain d where dl: "deadline (WithTimeout ctx now (30 * Second)) = Some d"
    using deadline_WithTimeout by blast
  show ?thesis
  proof (cases "cause (listFlights_reply tr)")
    case None
    then show ?thesis
      using ListBatches_loop_outcome[of "\<lparr>ls_ctx = WithTimeout ctx now (30 * Second),
          ls_pending = list_infos tr, ls_end = list_end tr\<rparr>" d]
      by (simp add: ListBatches_wrap ListBatches_stream_open[OF dl None] dl)
  next
    case (Some e)
    then show ?thesis
      by (simp add: ListBatches_wrap ListBatches_stream_refused[OF dl Some])
  qed
qed

theorem ListBatches_panics_iff_witness:
  "cause (listFlights_reply service_list_nil) = None \<and>
   info_nil \<in> set (list_infos service_list_nil) \<and>
   FlightInfo.FlightDescriptor info_nil = None \<and>
   fst (ListBatches service_list_nil background 0 world0) = Panics"
proof -
  have c: "cause (listFlights_reply service_list_nil) = None"
    by (simp add: service_list_nil_def service_ok_def cause_def)
  have i: "info_nil \<in> set (list_infos service_list_nil)"
    by (simp add: service_list_nil_def)
  have n: "FlightInfo.FlightDescriptor info_nil = None" by (simp add: info_nil_def)
  from i n have "\<exists>info\<in>set (list_infos service_list_nil). FlightInfo.FlightDescriptor info = None"
    by blast
  with c ListBatches_panics_iff[of service_list_nil background 0 world0]
  have "fst (ListBatches service_list_nil background 0 world0) = Panics" by blast
  with c i n show ?thesis by blast
qed

section \<open>Deadlines\<close>

lemma stream_contexts_append:
  "stream_contexts (xs @ ys) = stream_contexts xs @ stream_contexts ys"
  by (induction xs rule: stream_contexts.induct) simp_all

lemma stream_contexts_InfoRecv:
  "stream_contexts (replicate n E_InfoRecv) = []"
  by (induction n) simp_all

lemma ListBatches_loop_trace:
  assumes "deadline (ls_ctx s) = Some d"
  shows "\<exists>n. snd (ListBatches_loop s ids w) = logged (replicate n E_InfoRecv) w"
proof (cases "\<exists>info\<in>set (ls_pending s). FlightInfo.FlightDescriptor info = None")
  case True
  from first_None_split[OF True] obtain pre x post ys where
    "ls_pending s = pre @ x # post" "FlightInfo.FlightDescriptor x = None"
    "map FlightInfo.FlightDescriptor pre = map Some ys" by blast
  from ListBatches_loop_nil[OF this(3) this(2) this(1), of ids w] show ?thesis
    by (metis snd_conv)
next
  case False
  then have "\<forall>info\<in>set (ls_pending s). FlightInfo.FlightDescriptor info \<noteq> None" by simp
  from all_Some_map[OF this] obtain ds where
    "map FlightInfo.FlightDescriptor (ls_pending s) = map Some ds" by blast
  from ListBatches_loop_all[OF assms this, of ids w] show ?thesis
    by (metis snd_conv)
qed

lemma PutBatch_contexts:
  "stream_contexts (events_since w (snd (PutBatch tr ctx now batch w)))
     = [WithTimeout ctx now (30 * Second)]"
proof -
  obtain d where dl: "deadline (WithTimeout ctx now (30 * Second)) = Some d"
    using deadline_WithTimeout by blast
  show ?thesis
    by (simp add: PutBatch_wrap PutBatch_stream_run[OF dl] events_since_def logged_def emit_def
        split: option.splits reply.splits)
qed

lemma GetBatch_contexts:
  "stream_contexts (events_since w (snd (GetBatch tr ctx now batchID w)))
     = [WithTimeout ctx now (30 * Second)]"
proof -
  obtain d where dl: "deadline (WithTimeout ctx now (30 * Second)) = Some d"
    using deadline_WithTimeout by blast
  show ?thesis
    by (simp add: GetBatch_wrap GetBatch_stream_run[OF dl] events_since_def logged_def emit_def
        split: option.splits list.splits)
qed

lemma ListBatches_contexts:
  "stream_contexts (events_since w (snd (ListBatches tr ctx now w)))
     = [WithTimeout ctx now (30 * Second)]"
proof -
  obtain d where dl: "deadline (WithTimeout ctx now (30 * Second)) = Some d"
    using deadline_WithTimeout by blast
  let ?c = "WithTimeout ctx now (30 * Second)"
  show ?thesis
  proof (cases "cause (listFlights_reply tr)")
    case None
    from ListBatches_loop_trace[of "\<lparr>ls_ctx = ?c, ls_pending = list_infos tr, ls_end = list_end tr\<rparr>"
        d "[]" "emit (E_ListFlights ?c (Criteria [])) (emit (E_WithTimeout (30 * Second)) w)"] dl
    obtain n where "snd (ListBatches_loop \<lparr>ls_ctx = ?c, ls_pending = list_infos tr, ls_end = list_end tr\<rparr>
        [] (emit (E_ListFlights ?c (Criteria [])) (emit (E_WithTimeout (30 * Second)) w)))
      = logged (replicate n E_InfoRecv)
          (emit (E_ListFlights ?c (Criteria [])) (emit (E_WithTimeout (30 * Second)) w))"
      by auto
    then show ?thesis
      by (simp add: ListBatches_wrap ListBatches_stream_open[OF dl None] events_since_def
          logged_def emit_def stream_contexts_append stream_contexts_InfoRecv)
  next
    case (Some e)
    then show ?thesis
      by (simp add: ListBatches_wrap ListBatches_stream_refused[OF dl Some] events_since_def emit_def)
  qed
qed

lemma ListBatches_never_hangs:
  "fst (ListBatches tr ctx now w) \<noteq> Hangs"
proof -
  obtain d where dl: "deadline (WithTimeout ctx now (30 * Second)) = Some d"
    using deadline_WithTimeout by blast
  show ?thesis
  proof (cases "cause (listFlights_reply tr)")
    case None
    then show ?thesis
      using ListBatches_loop_outcome[of "\<lparr>ls_ctx = WithTimeout ctx now (30 * Second),
          ls_pending = list_infos tr, ls_end = list_end tr\<rparr>" d]
      by (simp add: ListBatches_wrap ListBatches_stream_open[OF dl None] dl)
  next
    case (Some e)
    then show ?thesis
      by (simp add: ListBatches_wrap ListBatches_stream_refused[OF dl Some])
  qed
qed

lemma ListBatches_refused:
  assumes "cause (listFlights_reply tr) = Some e"
  shows "fst (ListBatches tr ctx now w) =
           Returns ([], Some (Errorf ''failed to start ListFlights stream'' (Some e)))"
proof -
  obtain d where dl: "deadline (WithTimeout ctx now (30 * Second)) = Some d"
    using deadline_WithTimeout by blast
  show ?thesis
    by (simp add: ListBatches_wrap ListBatches_stream_refused[OF dl assms])
qed

text \<open>
  C8, as stated, fails for \<^verbatim>\<open>ListBatches\<close>: when its stream opens and the service then
  never sends anything, the deadline ends the receive, the loop breaks on that error,
  and the call returns no identifiers with a \<^verbatim>\<open>nil\<close> error, not a timeout error.
\<close>

theorem ListBatches_silent_stream_counterexample:
  "cause (listFlights_reply service_list_stalled) = None \<and>
   list_infos service_list_stalled = [] \<and>
   list_end service_list_stalled = Silent \<and>
   fst (ListBatches service_list_stalled background 0 world0) = Returns ([], None) \<and>
   \<not> timeout_error (fst (ListBatches service_list_stalled background 0 world0))"
proof -
  have c: "cause (listFlights_reply service_list_stalled) = None"
    by (simp add: service_list_stalled_def service_ok_def cause_def)
  have m: "map FlightInfo.FlightDescriptor (list_infos service_list_stalled) = map Some []"
    by (simp add: service_list_stalled_def)
  have "fst (ListBatches service_list_stalled background 0 world0) = Returns ([], None)"
    by (simp add: ListBatches_all[OF c m])
  with c show ?thesis by (simp add: service_list_stalled_def)
qed

text \<open>
  C8, amended. Every \<^verbatim>\<open>PutBatch\<close>, \<^verbatim>\<open>GetBatch\<close> and \<^verbatim>\<open>ListBatches\<close> call opens its
  stream under one context, derived from the caller's, whose deadline is at most 30
  seconds after the call and no later than the caller's own; so no call hangs, even when
  the caller supplied no deadline. A \<^verbatim>\<open>PutBatch\<close> or \<^verbatim>\<open>GetBatch\<close> call whose first
  unanswered step ends with the deadline returns an error wrapping \<open>DeadlineExceeded\<close>,
  and so does a \<^verbatim>\<open>ListBatches\<close> call whose stream does not open in time. A
  \<^verbatim>\<open>ListBatches\<close> call whose open stream falls silent returns the identifiers received
  so far with a \<^verbatim>\<open>nil\<close> error.
\<close>

theorem per_call_deadline:
  "(\<exists>d. deadline (WithTimeout ctx now (30 * Second)) = Some d \<and> d \<le> now + 30 * Second \<and>
        (\<forall>p. deadline ctx = Some p \<longrightarrow> d \<le> p)) \<and>
   stream_contexts (events_since w (snd (PutBatch tr ctx now batch w)))
     = [WithTimeout ctx now (30 * Second)] \<and>
   stream_contexts (events_since w (snd (GetBatch tr ctx now batchID w)))
     = [WithTimeout ctx now (30 * Second)] \<and>
   stream_contexts (events_since w (snd (ListBatches tr ctx now w)))
     = [WithTimeout ctx now (30 * Second)] \<and>
   fst (PutBatch tr ctx now batch w) \<noteq> Hangs \<and>
   fst (GetBatch tr ctx now batchID w) \<noteq> Hangs \<and>
   fst (ListBatches tr ctx now w) \<noteq> Hangs \<and>
   (first_cause (put_steps tr) = Some DeadlineExceeded \<longrightarrow>
      timeout_error (fst (PutBatch tr ctx now batch w))) \<and>
   (first_cause (get_steps tr batchID) = Some DeadlineExceeded \<longrightarrow>
      timeout_error (fst (GetBatch tr ctx now batchID w))) \<and>
   (cause (listFlights_reply tr) = Some DeadlineExceeded \<longrightarrow>
      timeout_error (fst (ListBatches tr ctx now w))) \<and>
   (\<forall>ds. cause (listFlights_reply tr) = None \<and>
         map FlightInfo.FlightDescriptor (list_infos tr) = map Some ds \<and>
         list_end tr = Silent \<longrightarrow>
      fst (ListBatches tr ctx now w) = Returns (map Cmd ds, None))"
proof -
  have 1: "\<exists>d. deadline (WithTimeout ctx now (30 * Second)) = Some d \<and> d \<le> now + 30 * Second \<and>
        (\<forall>p. deadline ctx = Some p \<longrightarrow> d \<le> p)"
    by (rule deadline_WithTimeout)
  have 2: "fst (PutBatch tr ctx now batch w) \<noteq> Hangs"
    by (simp add: PutBatch_result split: option.splits reply.splits)
  have 3: "fst (GetBatch tr ctx now batchID w) \<noteq> Hangs"
    by (simp add: GetBatch_result split: option.splits list.splits)
  have 4: "first_cause (put_steps tr) = Some DeadlineExceeded \<longrightarrow>
      timeout_error (fst (PutBatch tr ctx now batch w))"
    by (auto simp: PutBatch_result put_steps_def put_steps_before_ack_def cause_def
        split: option.splits reply.splits)
  have 5: "first_cause (get_steps tr batchID) = Some DeadlineExceeded \<longrightarrow>
      timeout_error (fst (GetBatch tr ctx now batchID w))"
    by (auto simp: GetBatch_result get_steps_def split: option.splits list.splits if_splits)
  have 6: "cause (listFlights_reply tr) = Some DeadlineExceeded \<longrightarrow>
      timeout_error (fst (ListBatches tr ctx now w))"
    by (simp add: ListBatches_refused)
  have 7: "\<forall>ds. cause (listFlights_reply tr) = None \<and>
         map FlightInfo.FlightDescriptor (list_infos tr) = map Some ds \<and>
         list_end tr = Silent \<longrightarrow>
      fst (ListBatches tr ctx now w) = Returns (map Cmd ds, None)"
    by (simp add: ListBatches_all)
  from 1 2 3 4 5 6 7 PutBatch_contexts GetBatch_contexts ListBatches_contexts
    ListBatches_never_hangs
  show ?thesis by blast
qed

theorem per_call_deadline_witness:
  "deadline (WithTimeout background 0 (30 * Second)) = Some (30 * Second) \<and>
   first_cause (put_steps service_put_stalled) = Some DeadlineExceeded \<and>
   timeout_error (fst (PutBatch service_put_stalled background 0 batch0 world0)) \<and>
   first_cause (get_steps (service_ok\<lparr>get_schema := (\<lambda>t. Silent)\<rparr>) ''id-1'') = Some DeadlineExceeded \<and>
   timeout_error (fst (GetBatch (service_ok\<lparr>get_schema := (\<lambda>t. Silent)\<rparr>) background 0 ''id-1'' world0)) \<and>
   cause (listFlights_reply (service_ok\<lparr>listFlights_reply := Silent\<rparr>)) = Some DeadlineExceeded \<and>
   timeout_error (fst (ListBatches (service_ok\<lparr>listFlights_reply := Silent\<rparr>) background 0 world0)) \<and>
   fst (ListBatches service_list_stalled background 0 world0) = Returns ([], None) \<and>
   fst (ListBatches service_list_stalled background 0 world0) \<noteq> Hangs"
proof -
  let ?tg = "service_ok\<lparr>get_schema := (\<lambda>t. Silent)\<rparr>"
  let ?tl = "service_ok\<lparr>listFlights_reply := Silent\<rparr>"
  have d: "deadline (WithTimeout background 0 (30 * Second)) = Some (30 * Second)"
    by (simp add: WithTimeout_def background_def)
  have p: "first_cause (put_steps service_put_stalled) = Some DeadlineExceeded"
    by (simp add: put_steps_def put_steps_before_ack_def service_put_stalled_def
        service_ok_def cause_def)
  have g: "first_cause (get_steps ?tg ''id-1'') = Some DeadlineExceeded"
    by (simp add: get_steps_def service_ok_def cause_def)
  have l: "cause (listFlights_reply ?tl) = Some DeadlineExceeded"
    by (simp add: cause_def)
  have s: "cause (listFlights_reply service_list_stalled) = None \<and>
         map FlightInfo.FlightDescriptor (list_infos service_list_stalled) = map Some [] \<and>
         list_end service_list_stalled = Silent"
    by (simp add: service_list_stalled_def service_ok_def cause_def)
  from per_call_deadline[of background 0 world0 service_put_stalled batch0 "''id-1''"] p
  have 1: "timeout_error (fst (PutBatch service_put_stalled background 0 batch0 world0))"
    by blast
  from per_call_deadline[of background 0 world0 ?tg batch0 "''id-1''"] g
  have 2: "timeout_error (fst (GetBatch ?tg background 0 ''id-1'' world0))"
    by blast
  from per_call_deadline[of background 0 world0 ?tl batch0 "''id-1''"] l
  have 3: "timeout_error (fst (ListBatches ?tl background 0 world0))"
    by blast
  from per_call_deadline[of background 0 world0 service_list_stalled batch0 "''id-1''"]
  have a: "\<forall>ds. cause (listFlights_reply service_list_stalled) = None \<and>
         map FlightInfo.FlightDescriptor (list_infos service_list_stalled) = map Some ds \<and>
         list_end service_list_stalled = Silent \<longrightarrow>
      fst (ListBatches service_list_stalled background 0 world0) = Returns (map Cmd ds, None)"
    and h: "fst (ListBatches service_list_stalled background 0 world0) \<noteq> Hangs"
    by blast+
  from a[rule_format, of "[]"] s h
  have 4: "fst (ListBatches service_list_stalled background 0 world0) = Returns ([], None) \<and>
           fst (ListBatches service_list_stalled background 0 world0) \<noteq> Hangs"
    by simp
  from d p g l 1 2 3 4 show ?thesis by simp
qed

section \<open>Properties of NewFlightClient\<close>

text \<open>
  C9. \<^verbatim>\<open>NewFlightClient\<close> dials "localhost:8080" when the configured address is empty
  and attaches the Go allocator when the configured allocator is \<^verbatim>\<open>nil\<close>. Its dials are
  blocking with a timeout of five seconds. When the dial is refused or timed out it
  returns an error wrapping the cause and no client, having dialled once; when the
  Flight client cannot be created it closes the connection and returns an error and no
  client; otherwise it returns the client, for the effective address and allocator.
\<close>

theorem NewFlightClient_defaults_and_dial:
  assumes "NewFlightClient tr config w = (out, w')"
  shows "(Addr config = [] \<longrightarrow> effective_addr config = ''localhost:8080'') \<and>
         (Allocator config = None \<longrightarrow> effective_allocator config = GoAllocator) \<and>
         WithBlock \<in> set dial_options \<and> dial_timeout dial_options = Some (5 * Second) \<and>
         (\<forall>e. cause (dial_reply tr (effective_addr config)) = Some e \<longrightarrow>
            out = Returns (None, Some (Errorf (''failed to connect to Flight server at ''
                                                @ effective_addr config) (Some e))) \<and>
            events_since w w' = [E_Dial (effective_addr config) dial_options]) \<and>
         (\<forall>e. cause (dial_reply tr (effective_addr config)) = None \<and>
              cause (newClient_reply tr (effective_addr config)) = Some e \<longrightarrow>
            out = Returns (None, Some (Errorf ''failed to create Flight client'' (Some e))) \<and>
            events_since w w' = [E_Dial (effective_addr config) dial_options,
                                 E_NewClient (effective_addr config) dial_options,
                                 E_ConnClose (ClientConn (effective_addr config))]) \<and>
         (cause (dial_reply tr (effective_addr config)) = None \<and>
          cause (newClient_reply tr (effective_addr config)) = None \<longrightarrow>
            out = Returns (Some \<lparr>client = flight_Client (effective_addr config),
                                  addr = effective_addr config,
                                  allocator = effective_allocator config,
                                  conn = ClientConn (effective_addr config)\<rparr>, None) \<and>
            events_since w w' = [E_Dial (effective_addr config) dial_options,
                                 E_NewClient (effective_addr config) dial_options])"
  using assms
  by (auto simp: NewFlightClient_run Let_def effective_addr_def effective_allocator_def
      dial_options_def events_since_def logged_def)

theorem NewFlightClient_defaults_and_dial_witness:
  "effective_addr \<lparr>Addr = [], Allocator = None\<rparr> = ''localhost:8080'' \<and>
   effective_allocator \<lparr>Addr = [], Allocator = None\<rparr> = GoAllocator \<and>
   fst (NewFlightClient service_ok \<lparr>Addr = [], Allocator = None\<rparr> world0) =
     Returns (Some \<lparr>client = flight_Client ''localhost:8080'', addr = ''localhost:8080'',
                    allocator = GoAllocator, conn = ClientConn ''localhost:8080''\<rparr>, None) \<and>
   fst (NewFlightClient service_refusing \<lparr>Addr = [], Allocator = None\<rparr> world0) =
     Returns (None, Some (Errorf ''failed to connect to Flight server at localhost:8080''
                            (Some (Status ''connection refused'')))) \<and>
   events_since world0 (snd (NewFlightClient service_refusing \<lparr>Addr = [], Allocator = None\<rparr> world0))
     = [E_Dial ''localhost:8080'' dial_options] \<and>
   fst (NewFlightClient (service_ok\<lparr>newClient_reply := (\<lambda>t. Silent)\<rparr>)
          \<lparr>Addr = [], Allocator = None\<rparr> world0) =
     Returns (None, Some (Errorf ''failed to create Flight client'' (Some DeadlineExceeded)))"
proof -
  let ?cfg = "\<lparr>Addr = [], Allocator = None\<rparr>"
  let ?ts = "service_ok\<lparr>newClient_reply := (\<lambda>t. Silent)\<rparr>"
  have a: "Addr ?cfg = []" "Allocator ?cfg = None" by simp_all
  have r1: "NewFlightClient service_ok ?cfg world0 =
     (fst (NewFlightClient service_ok ?cfg world0), snd (NewFlightClient service_ok ?cfg world0))"
    by simp
  have r2: "NewFlightClient service_refusing ?cfg world0 =
     (fst (NewFlightClient service_refusing ?cfg world0),
      snd (NewFlightClient service_refusing ?cfg world0))"
    by simp
  have r3: "NewFlightClient ?ts ?cfg world0 =
     (fst (NewFlightClient ?ts ?cfg world0), snd (NewFlightClient ?ts ?cfg world0))"
    by simp
  from NewFlightClient_defaults_and_dial[OF r1] a
  have e: "effective_addr ?cfg = ''localhost:8080''" "effective_allocator ?cfg = GoAllocator"
    by blast+
  have c1: "cause (dial_reply service_ok (effective_addr ?cfg)) = None \<and>
            cause (newClient_reply service_ok (effective_addr ?cfg)) = None"
    by (simp add: service_ok_def cause_def)
  have c2: "cause (dial_reply service_refusing (effective_addr ?cfg)) =
              Some (Status ''connection refused'')"
    by (simp add: service_refusing_def service_ok_def cause_def)
  have c3: "cause (dial_reply ?ts (effective_addr ?cfg)) = None \<and>
            cause (newClient_reply ?ts (effective_addr ?cfg)) = Some DeadlineExceeded"
    by (simp add: service_ok_def cause_def)
  from NewFlightClient_defaults_and_dial[OF r1] c1
  have 1: "fst (NewFlightClient service_ok ?cfg world0) =
     Returns (Some \<lparr>client = flight_Client (effective_addr ?cfg), addr = effective_addr ?cfg,
                    allocator = effective_allocator ?cfg,
                    conn = ClientConn (effective_addr ?cfg)\<rparr>, None)"
    by blast
  from NewFlightClient_defaults_and_dial[OF r2] c2
  have 2: "fst (NewFlightClient service_refusing ?cfg world0) =
     Returns (None, Some (Errorf (''failed to connect to Flight server at '' @ effective_addr ?cfg)
                            (Some (Status ''connection refused'')))) \<and>
     events_since world0 (snd (NewFlightClient service_refusing ?cfg world0))
       = [E_Dial (effective_addr ?cfg) dial_options]"
    by blast
  from NewFlightClient_defaults_and_dial[OF r3] c3
  have 3: "fst (NewFlightClient ?ts ?cfg world0) =
     Returns (None, Some (Errorf ''failed to create Flight client'' (Some DeadlineExceeded)))"
    by blast
  from 1 2 3 e show ?thesis by simp
qed

end
